theory Spec2Isabelle
  imports Complex_Main "HOL-Library.AList"
begin

section \<open>SpendTracker: budget status, record store and analytics\<close>

text \<open>
  The development embeds the computational core of the expense tracker:
  the provider in \<^verbatim>\<open>src/components/ExpensesContext.tsx\<close> (load, add, update,
  delete, budget status), the form submission of \<^verbatim>\<open>src/app/(tabs)/index.tsx\<close>
  and the analytics functions of \<^verbatim>\<open>src/app/(tabs)/two.tsx\<close>.

  Number model. JavaScript numbers are modelled as exact rationals (amounts) and
  integers (time values in milliseconds). IEEE rounding error, \<^verbatim>\<open>NaN\<close> and the
  infinities are outside this model, except where the code tests for them: a failed
  \<^verbatim>\<open>parseFloat\<close> or date parse is \<open>None\<close>, and a division whose divisor can be zero
  is written out. Time values are assumed to lie in the range of \<^verbatim>\<open>Date\<close>.
  Category names are ordinary own-property keys of the objects that hold the totals:
  a name that \<^verbatim>\<open>Object.prototype\<close> defines, such as \<^verbatim>\<open>constructor\<close>, is outside the model.
\<close>

subsection \<open>The platform's Date arithmetic\<close>

text \<open>
  ECMAScript's day and year arithmetic on time values. The local time zone
  adjustment \<open>tza\<close> (milliseconds) is a parameter and is constant: daylight saving
  time is not modelled.
\<close>

definition msPerDay :: int where
  "msPerDay = 86400000"

definition Day :: "int \<Rightarrow> int" where
  "Day t = t div msPerDay"

definition TimeWithinDay :: "int \<Rightarrow> int" where
  "TimeWithinDay t = t mod msPerDay"

definition WeekDay :: "int \<Rightarrow> int" where
  "WeekDay t = (Day t + 4) mod 7"

definition DaysInYear :: "int \<Rightarrow> int" where
  "DaysInYear y =
     (if y mod 4 \<noteq> 0 then 365
      else if y mod 100 \<noteq> 0 then 366
      else if y mod 400 \<noteq> 0 then 365
      else 366)"

definition DayFromYear :: "int \<Rightarrow> int" where
  "DayFromYear y =
     365 * (y - 1970) + (y - 1969) div 4 - (y - 1901) div 100 + (y - 1601) div 400"

text \<open>\<open>year_down y d\<close> searches downwards from \<open>y\<close> for the year that holds day \<open>d\<close>; its
  termination is proved with the calendar lemmas below.\<close>

function year_down :: "int \<Rightarrow> int \<Rightarrow> int" where
  "year_down y d = (if DayFromYear y \<le> d then y else year_down (y - 1) d)"
  by pat_completeness auto

text \<open>The largest year whose first day is not after day \<open>d\<close> (ECMAScript's YearFromTime).\<close>

definition YearFromDay :: "int \<Rightarrow> int" where
  "YearFromDay d = year_down (1971 + max 0 (d div 365)) d"

definition DayWithinYear :: "int \<Rightarrow> int" where
  "DayWithinYear d = d - DayFromYear (YearFromDay d)"

definition InLeapYear :: "int \<Rightarrow> int" where
  "InLeapYear d = (if DaysInYear (YearFromDay d) = 366 then 1 else 0)"

text \<open>First day of each month within the year, for leap-day count \<open>L\<close>.\<close>

definition month_starts :: "int \<Rightarrow> int list" where
  "month_starts L =
     [0, 31, 59 + L, 90 + L, 120 + L, 151 + L, 181 + L, 212 + L, 243 + L, 273 + L,
      304 + L, 334 + L]"

definition MonthFromDay :: "int \<Rightarrow> nat" where
  "MonthFromDay d =
     length (filter (\<lambda>s. s \<le> DayWithinYear d) (tl (month_starts (InLeapYear d))))"

definition MonthStartDay :: "int \<Rightarrow> int" where
  "MonthStartDay d =
     DayFromYear (YearFromDay d) + month_starts (InLeapYear d) ! MonthFromDay d"

definition DateFromDay :: "int \<Rightarrow> int" where
  "DateFromDay d = d - MonthStartDay d + 1"

definition LocalTime :: "int \<Rightarrow> int \<Rightarrow> int" where
  "LocalTime tza t = t + tza"

definition UTC :: "int \<Rightarrow> int \<Rightarrow> int" where
  "UTC tza t = t - tza"

text \<open>\<^verbatim>\<open>getDate()\<close>, \<^verbatim>\<open>getDay()\<close>, \<^verbatim>\<open>setDate(dt)\<close> and \<^verbatim>\<open>setHours(h, m, s, ms)\<close> of a
  Date holding time value \<open>t\<close>; the setters return the new time value.\<close>

definition getDate :: "int \<Rightarrow> int \<Rightarrow> int" where
  "getDate tza t = DateFromDay (Day (LocalTime tza t))"

definition getDay :: "int \<Rightarrow> int \<Rightarrow> int" where
  "getDay tza t = WeekDay (LocalTime tza t)"

definition setDate :: "int \<Rightarrow> int \<Rightarrow> int \<Rightarrow> int" where
  "setDate tza t dt =
     UTC tza ((MonthStartDay (Day (LocalTime tza t)) + dt - 1) * msPerDay
              + TimeWithinDay (LocalTime tza t))"

definition setHours :: "int \<Rightarrow> int \<Rightarrow> int \<Rightarrow> int \<Rightarrow> int \<Rightarrow> int \<Rightarrow> int" where
  "setHours tza t h m s ms =
     UTC tza (Day (LocalTime tza t) * msPerDay
              + (h * 3600000 + m * 60000 + s * 1000 + ms))"

text \<open>\<^verbatim>\<open>getMonth()\<close> and \<^verbatim>\<open>setMonth(m)\<close>; a month outside \<open>0..11\<close> carries into the year.\<close>

definition getMonth :: "int \<Rightarrow> int \<Rightarrow> int" where
  "getMonth tza t = int (MonthFromDay (Day (LocalTime tza t)))"

definition MakeDay :: "int \<Rightarrow> int \<Rightarrow> int \<Rightarrow> int" where
  "MakeDay y m dt =
     (let ym = y + m div 12
      in DayFromYear ym
         + month_starts (if DaysInYear ym = 366 then 1 else 0) ! nat (m mod 12) + dt - 1)"

definition setMonth :: "int \<Rightarrow> int \<Rightarrow> int \<Rightarrow> int" where
  "setMonth tza t m =
     UTC tza (MakeDay (YearFromDay (Day (LocalTime tza t))) m
                (DateFromDay (Day (LocalTime tza t))) * msPerDay
              + TimeWithinDay (LocalTime tza t))"

subsection \<open>Records, budgets and objects keyed by category\<close>

datatype budget_period = daily | weekly | monthly

text \<open>\<^verbatim>\<open>interface Budget\<close>: \<open>categoryLimits\<close> is optional; an object is the list of its
  entries in insertion order.\<close>

record Budget =
  budget_amount :: rat
  period :: budget_period
  categoryLimits :: "(string \<times> rat) list option"

text \<open>\<^verbatim>\<open>interface Expense\<close>: \<open>timestamp\<close> is optional (\<open>None\<close> also stands for a
  timestamp that is not a number).\<close>

record Expense =
  eid :: string
  description :: string
  amount :: rat
  date :: string
  category :: string
  timestamp :: "int option"

record BudgetStatus =
  total :: rat
  remaining :: rat
  categoryTotals :: "(string \<times> rat) list"
  isOverBudget :: bool

text \<open>\<^verbatim>\<open>obj[k] || 0\<close> and \<^verbatim>\<open>obj[k] = v\<close> on an object holding numbers.\<close>

definition get_or_0 :: "(string \<times> rat) list \<Rightarrow> string \<Rightarrow> rat" where
  "get_or_0 obj k = (case map_of obj k of Some v \<Rightarrow> v | None \<Rightarrow> 0)"

definition obj_set :: "(string \<times> rat) list \<Rightarrow> string \<Rightarrow> rat \<Rightarrow> (string \<times> rat) list" where
  "obj_set obj k v = AList.update k v obj"

text \<open>The two conditions under which the rational model and the platform's arithmetic
  and objects agree exactly. The names that \<^verbatim>\<open>Object.prototype\<close> defines: an object literal
  answers a read of such a key with the inherited value, so a category of that name does
  not start from 0. Whole amounts whose absolute values sum to at most
  \<open>90071992547409\<close>, the integer part of \<open>2\<^sup>5\<^sup>3 / 100\<close>: every sum of such amounts, in any
  order, and its product with 100 are integers that a double holds exactly.\<close>

definition object_prototype_names :: "string list" where
  "object_prototype_names =
     [''constructor'', ''__proto__'', ''hasOwnProperty'', ''isPrototypeOf'',
      ''propertyIsEnumerable'', ''toLocaleString'', ''toString'', ''valueOf'',
      ''__defineGetter__'', ''__defineSetter__'', ''__lookupGetter__'', ''__lookupSetter__'']"

definition plain_categories :: "Expense list \<Rightarrow> bool" where
  "plain_categories xs = list_all (\<lambda>e. category e \<notin> set object_prototype_names) xs"

definition whole_amounts :: "Expense list \<Rightarrow> bool" where
  "whole_amounts xs =
     (list_all (\<lambda>e. amount e = of_int \<lfloor>amount e\<rfloor>) xs
      \<and> sum_list (map (\<lambda>e. \<bar>amount e\<bar>) xs) \<le> 90071992547409)"

subsection \<open>Budget status (\<^verbatim>\<open>getBudgetStatus\<close>)\<close>

text \<open>\<^verbatim>\<open>expense.timestamp || new Date(expense.date).getTime()\<close>: a missing or zero
  timestamp falls back to the parsed date; \<open>parse\<close> is the platform's date parser and
  returns \<open>None\<close> for an invalid date.\<close>

definition expense_time :: "(string \<Rightarrow> int option) \<Rightarrow> Expense \<Rightarrow> int option" where
  "expense_time parse e =
     (case timestamp e of
        Some t \<Rightarrow> if t \<noteq> 0 then Some t else parse (date e)
      | None \<Rightarrow> parse (date e))"

text \<open>The \<^verbatim>\<open>switch (budget.period)\<close> that moves \<^verbatim>\<open>startOfPeriod\<close>.\<close>

definition startOfPeriod :: "int \<Rightarrow> budget_period \<Rightarrow> int \<Rightarrow> int" where
  "startOfPeriod tza p now =
     (case p of
        daily \<Rightarrow> setHours tza now 0 0 0 0
      | weekly \<Rightarrow> setHours tza (setDate tza now (getDate tza now - getDay tza now)) 0 0 0 0
      | monthly \<Rightarrow> setHours tza (setDate tza now 1) 0 0 0 0)"

text \<open>Comparison of a record's date with a Date: false when the record's date is invalid.\<close>

definition on_or_after :: "(string \<Rightarrow> int option) \<Rightarrow> int \<Rightarrow> Expense \<Rightarrow> bool" where
  "on_or_after parse start e =
     (case expense_time parse e of Some t \<Rightarrow> start \<le> t | None \<Rightarrow> False)"

text \<open>The callback of \<^verbatim>\<open>periodExpenses.reduce\<close>: it updates \<^verbatim>\<open>categoryTotals\<close> and returns
  the running sum.\<close>

definition add_to_totals ::
  "rat \<times> (string \<times> rat) list \<Rightarrow> Expense \<Rightarrow> rat \<times> (string \<times> rat) list" where
  "add_to_totals acc e =
     (case acc of (running, cts) \<Rightarrow>
        (running + amount e,
         obj_set cts (category e) (get_or_0 cts (category e) + amount e)))"

definition getBudgetStatus ::
  "int \<Rightarrow> (string \<Rightarrow> int option) \<Rightarrow> Budget option \<Rightarrow> Expense list \<Rightarrow> int \<Rightarrow> BudgetStatus" where
  "getBudgetStatus tza parse budget expenses now =
     (case budget of
        None \<Rightarrow> \<lparr>total = 0, remaining = 0, categoryTotals = [], isOverBudget = False\<rparr>
      | Some b \<Rightarrow>
          let start = startOfPeriod tza (period b) now;
              periodExpenses = filter (on_or_after parse start) expenses;
              (tot, cts) = foldl add_to_totals (0, []) periodExpenses;
              over = (tot > budget_amount b);
              over' = (case categoryLimits b of
                         Some limits \<Rightarrow>
                           if \<not> over
                           then list_ex (\<lambda>(c, limit). get_or_0 cts c > limit) limits
                           else over
                       | None \<Rightarrow> over)
          in \<lparr>total = tot, remaining = max 0 (budget_amount b - tot),
              categoryTotals = cts, isOverBudget = over'\<rparr>)"

subsection \<open>JavaScript values and strings\<close>

text \<open>The values \<^verbatim>\<open>JSON.parse\<close> produces, and \<^verbatim>\<open>undefined\<close> for a missing property. An
  object is the list of its entries, with distinct keys.\<close>

datatype jsval =
  JUndefined | JNull | JBool bool | JNum rat | JStr string
  | JArr "jsval list" | JObj "(string \<times> jsval) list"

fun truthy :: "jsval \<Rightarrow> bool" where
  "truthy JUndefined = False"
| "truthy JNull = False"
| "truthy (JBool b) = b"
| "truthy (JNum n) = (n \<noteq> 0)"
| "truthy (JStr s) = (s \<noteq> [])"
| "truthy (JArr xs) = True"
| "truthy (JObj fs) = True"

text \<open>Reading property \<open>k\<close> of a value: \<open>None\<close> is the TypeError raised on \<^verbatim>\<open>null\<close> and
  \<^verbatim>\<open>undefined\<close>. Only names that no prototype defines are read.\<close>

fun get_prop :: "jsval \<Rightarrow> string \<Rightarrow> jsval option" where
  "get_prop JUndefined k = None"
| "get_prop JNull k = None"
| "get_prop (JObj fs) k = Some (case map_of fs k of Some v \<Rightarrow> v | None \<Rightarrow> JUndefined)"
| "get_prop v k = Some JUndefined"

text \<open>\<^verbatim>\<open>String.prototype.trim\<close> on the ASCII white space and line terminators.\<close>

definition is_space :: "char \<Rightarrow> bool" where
  "is_space c = (c \<in> set [CHR 0x09, CHR 0x0A, CHR 0x0B, CHR 0x0C, CHR 0x0D, CHR '' ''])"

definition trim :: "string \<Rightarrow> string" where
  "trim s = rev (dropWhile is_space (rev (dropWhile is_space s)))"

text \<open>\<^verbatim>\<open>Math.round\<close> rounds halves upwards; \<open>round2\<close> is
  \<^verbatim>\<open>Math.round(x * 100) / 100\<close>.\<close>

definition Math_round :: "rat \<Rightarrow> int" where
  "Math_round x = \<lfloor>x + 1 / 2\<rfloor>"

definition round2 :: "rat \<Rightarrow> rat" where
  "round2 x = of_int (Math_round (x * 100)) / 100"

subsection \<open>The provider's state and its environment\<close>

text \<open>A thrown \<^verbatim>\<open>Error\<close> is identified by its message.\<close>

datatype js_error = Error string

text \<open>The two budget warnings; the text shown is a function of these values.\<close>

datatype warning = ExceedsBudget budget_period rat | ExceedsCategoryLimit string rat

datatype alert = BudgetWarning warning | ErrorAlert string

text \<open>The React state of \<^verbatim>\<open>ExpensesProvider\<close>, the contents of AsyncStorage and the alerts
  shown so far. The debounced background save of the provider is not part of the model.\<close>

record provider_state =
  st_expenses :: "Expense list"
  st_budget :: "Budget option"
  st_error :: "string option"
  st_storage :: "string \<Rightarrow> string option"
  st_alerts :: "alert list"

text \<open>What the platform and the user answer during one call: the time zone, the date
  parser (\<open>None\<close> for an invalid date), \<^verbatim>\<open>JSON.stringify\<close>, \<^verbatim>\<open>JSON.parse\<close> (\<open>None\<close> when it
  throws), \<^verbatim>\<open>Number.prototype.toString\<close>, \<^verbatim>\<open>parseFloat\<close> (\<open>None\<close> for \<^verbatim>\<open>NaN\<close>),
  \<^verbatim>\<open>toLocaleDateString\<close>, \<^verbatim>\<open>Date.now()\<close>, the button pressed on a budget warning (\<open>True\<close>
  for the confirming button) and the messages of the errors that the three AsyncStorage
  calls throw, if they throw.\<close>

record env =
  local_tza :: int
  date_parse :: "string \<Rightarrow> int option"
  json_stringify :: "Expense list \<Rightarrow> string"
  json_parse :: "string \<Rightarrow> jsval option"
  number_toString :: "int \<Rightarrow> string"
  parseFloat :: "string \<Rightarrow> rat option"
  toLocaleDateString :: "int \<Rightarrow> string"
  date_now :: int
  alert_answer :: bool
  setItem_error :: "string option"
  getItem_error :: "string option"
  removeItem_error :: "string option"

text \<open>\<^verbatim>\<open>Omit<Expense, 'id' | 'timestamp'>\<close>.\<close>

record expense_input =
  in_description :: string
  in_amount :: rat
  in_date :: string
  in_category :: string

definition STORAGE_KEY :: string where
  "STORAGE_KEY = ''@spendtracker_expenses''"

text \<open>\<^verbatim>\<open>budget.categoryLimits?.[category]\<close>.\<close>

definition category_limit :: "Budget \<Rightarrow> string \<Rightarrow> rat option" where
  "category_limit b c = (case categoryLimits b of None \<Rightarrow> None | Some ls \<Rightarrow> map_of ls c)"

text \<open>The provider's own call of \<^verbatim>\<open>getBudgetStatus()\<close>.\<close>

definition current_status :: "env \<Rightarrow> provider_state \<Rightarrow> BudgetStatus" where
  "current_status ev s =
     getBudgetStatus (local_tza ev) (date_parse ev) (st_budget s) (st_expenses s) (date_now ev)"

subsection \<open>\<^verbatim>\<open>addExpense\<close>\<close>

text \<open>The computation of \<^verbatim>\<open>warningMessage\<close>; \<open>None\<close> is the empty message.\<close>

definition add_warning :: "Budget option \<Rightarrow> BudgetStatus \<Rightarrow> expense_input \<Rightarrow> warning option" where
  "add_warning budget budgetStatus expense =
     (let newTotal = total budgetStatus + in_amount expense;
          categoryTotal =
            get_or_0 (categoryTotals budgetStatus) (in_category expense) + in_amount expense
      in case budget of
           None \<Rightarrow> None
         | Some b \<Rightarrow>
             if newTotal > budget_amount b
             then Some (ExceedsBudget (period b) (newTotal - budget_amount b))
             else (case category_limit b (in_category expense) of
                     Some limit \<Rightarrow>
                       if limit \<noteq> 0 \<and> categoryTotal > limit
                       then Some (ExceedsCategoryLimit (in_category expense)
                                    (categoryTotal - limit))
                       else None
                   | None \<Rightarrow> None))"

definition newExpense :: "env \<Rightarrow> expense_input \<Rightarrow> Expense" where
  "newExpense ev expense =
     \<lparr>eid = number_toString ev (date_now ev), description = in_description expense,
      amount = in_amount expense, date = in_date expense, category = in_category expense,
      timestamp = Some (date_now ev)\<rparr>"

text \<open>The \<^verbatim>\<open>catch\<close> block of \<^verbatim>\<open>addExpense\<close> and \<^verbatim>\<open>updateExpense\<close>: the cancellation is
  rethrown as it is, any other error is recorded and reported first.\<close>

definition catch_mutation ::
  "string \<Rightarrow> string \<Rightarrow> provider_state \<Rightarrow> string \<Rightarrow> (js_error + unit) \<times> provider_state" where
  "catch_mutation cancelled alert_text s msg =
     (if msg = cancelled then (Inl (Error msg), s)
      else (Inl (Error msg),
            s\<lparr>st_error := Some msg, st_alerts := st_alerts s @ [ErrorAlert alert_text]\<rparr>))"

text \<open>The write of the new list to storage followed by \<^verbatim>\<open>setExpenses\<close>.\<close>

definition commit ::
  "env \<Rightarrow> string \<Rightarrow> string \<Rightarrow> provider_state \<Rightarrow> Expense list \<Rightarrow>
   (js_error + unit) \<times> provider_state" where
  "commit ev cancelled alert_text s updatedExpenses =
     (case setItem_error ev of
        Some msg \<Rightarrow> catch_mutation cancelled alert_text s msg
      | None \<Rightarrow>
          (Inr (),
           s\<lparr>st_storage := (st_storage s)(STORAGE_KEY \<mapsto> json_stringify ev updatedExpenses),
             st_expenses := updatedExpenses\<rparr>))"

definition addExpense ::
  "env \<Rightarrow> provider_state \<Rightarrow> expense_input \<Rightarrow> (js_error + unit) \<times> provider_state" where
  "addExpense ev s0 expense =
     (let s = s0\<lparr>st_error := None\<rparr>;
          budgetStatus = current_status ev s;
          updatedExpenses = st_expenses s @ [newExpense ev expense]
      in case add_warning (st_budget s) budgetStatus expense of
           Some w \<Rightarrow>
             (let s1 = s\<lparr>st_alerts := st_alerts s @ [BudgetWarning w]\<rparr>
              in if alert_answer ev
                 then commit ev ''Expense cancelled'' ''Failed to add expense. Please try again.''
                        s1 updatedExpenses
                 else catch_mutation ''Expense cancelled''
                        ''Failed to add expense. Please try again.'' s1 ''Expense cancelled'')
         | None \<Rightarrow>
             commit ev ''Expense cancelled'' ''Failed to add expense. Please try again.''
               s updatedExpenses)"

subsection \<open>\<^verbatim>\<open>updateExpense\<close>\<close>

definition update_warning ::
  "Budget option \<Rightarrow> BudgetStatus \<Rightarrow> Expense \<Rightarrow> expense_input \<Rightarrow> warning option" where
  "update_warning budget budgetStatus oldExpense expense =
     (let amountDiff = in_amount expense - amount oldExpense;
          newTotal = total budgetStatus + amountDiff;
          categoryTotal0 = get_or_0 (categoryTotals budgetStatus) (in_category expense);
          categoryTotal =
            (if in_category expense = category oldExpense then categoryTotal0 + amountDiff
             else categoryTotal0 + in_amount expense)
      in case budget of
           None \<Rightarrow> None
         | Some b \<Rightarrow>
             if amountDiff > 0
             then if newTotal > budget_amount b
                  then Some (ExceedsBudget (period b) (newTotal - budget_amount b))
                  else (case category_limit b (in_category expense) of
                          Some limit \<Rightarrow>
                            if limit \<noteq> 0 \<and> categoryTotal > limit
                            then Some (ExceedsCategoryLimit (in_category expense)
                                         (categoryTotal - limit))
                            else None
                        | None \<Rightarrow> None)
             else None)"

definition updatedExpense :: "env \<Rightarrow> string \<Rightarrow> expense_input \<Rightarrow> Expense" where
  "updatedExpense ev i expense =
     \<lparr>eid = i, description = in_description expense, amount = in_amount expense,
      date = in_date expense, category = in_category expense,
      timestamp = Some (date_now ev)\<rparr>"

definition updateExpense ::
  "env \<Rightarrow> provider_state \<Rightarrow> string \<Rightarrow> expense_input \<Rightarrow>
   (js_error + unit) \<times> provider_state" where
  "updateExpense ev s0 i expense =
     (let s = s0\<lparr>st_error := None\<rparr>
      in case find (\<lambda>e. eid e = i) (st_expenses s) of
           None \<Rightarrow>
             catch_mutation ''Update cancelled'' ''Failed to update expense. Please try again.''
               s ''Expense not found''
         | Some oldExpense \<Rightarrow>
             (let budgetStatus = current_status ev s;
                  updatedExpenses =
                    map (\<lambda>e. if eid e = i then updatedExpense ev i expense else e)
                      (st_expenses s)
              in case update_warning (st_budget s) budgetStatus oldExpense expense of
                   Some w \<Rightarrow>
                     (let s1 = s\<lparr>st_alerts := st_alerts s @ [BudgetWarning w]\<rparr>
                      in if alert_answer ev
                         then commit ev ''Update cancelled''
                                ''Failed to update expense. Please try again.'' s1 updatedExpenses
                         else catch_mutation ''Update cancelled''
                                ''Failed to update expense. Please try again.'' s1
                                ''Update cancelled'')
                 | None \<Rightarrow>
                     commit ev ''Update cancelled''
                       ''Failed to update expense. Please try again.'' s updatedExpenses))"

subsection \<open>\<^verbatim>\<open>deleteExpense\<close>\<close>

text \<open>The outer \<^verbatim>\<open>catch\<close> of \<^verbatim>\<open>deleteExpense\<close> records and reports every error.\<close>

definition catch_delete :: "provider_state \<Rightarrow> string \<Rightarrow> (js_error + unit) \<times> provider_state" where
  "catch_delete s msg =
     (Inl (Error msg),
      s\<lparr>st_error := Some msg,
        st_alerts := st_alerts s @ [ErrorAlert ''Failed to delete expense. Please try again.'']\<rparr>)"

text \<open>The state right after the optimistic \<^verbatim>\<open>setExpenses(updatedExpenses)\<close>, before the
  write to storage is attempted.\<close>

definition delete_optimistic :: "provider_state \<Rightarrow> string \<Rightarrow> provider_state" where
  "delete_optimistic s i = s\<lparr>st_expenses := filter (\<lambda>e. eid e \<noteq> i) (st_expenses s)\<rparr>"

definition deleteExpense ::
  "env \<Rightarrow> provider_state \<Rightarrow> string \<Rightarrow> (js_error + unit) \<times> provider_state" where
  "deleteExpense ev s0 i =
     (let s = s0\<lparr>st_error := None\<rparr>
      in case find (\<lambda>e. eid e = i) (st_expenses s) of
           None \<Rightarrow> catch_delete s ''Expense not found''
         | Some expenseToDelete \<Rightarrow>
             (let s1 = delete_optimistic s i
              in case setItem_error ev of
                   Some storageError \<Rightarrow>
                     catch_delete (s1\<lparr>st_expenses := st_expenses s\<rparr>) ''Failed to save changes''
                 | None \<Rightarrow>
                     (Inr (),
                      s1\<lparr>st_storage :=
                           (st_storage s1)(STORAGE_KEY \<mapsto> json_stringify ev (st_expenses s1))\<rparr>)))"

subsection \<open>Loading the persisted records (\<^verbatim>\<open>loadStoredData\<close>)\<close>

text \<open>The predicate of \<^verbatim>\<open>parsed.filter\<close>; \<open>None\<close> is the TypeError of reading a property of
  \<^verbatim>\<open>null\<close>.\<close>

definition is_number :: "jsval \<Rightarrow> bool" where
  "is_number v = (case v of JNum n \<Rightarrow> True | _ \<Rightarrow> False)"

definition keep_record :: "jsval \<Rightarrow> bool option" where
  "keep_record expense =
     (case (get_prop expense ''id'', get_prop expense ''description'',
            get_prop expense ''amount'', get_prop expense ''date'') of
        (Some i, Some d, Some a, Some dt) \<Rightarrow>
          Some (truthy i \<and> truthy d \<and> is_number a \<and> truthy dt)
      | _ \<Rightarrow> None)"

text \<open>The result of the callback of \<^verbatim>\<open>.map\<close> on one element that passed the filter:
  \<open>TypeError\<close> when \<^verbatim>\<open>description.trim\<close> is not a function; \<open>IllTyped\<close> when the record
  built does not inhabit \<^verbatim>\<open>interface Expense\<close> (an id, date or category that is not a
  string, a timestamp that is not an integer), which the typed store of this model
  cannot hold.\<close>

datatype mapped = TypeError | IllTyped | Mapped Expense

definition the_prop :: "jsval \<Rightarrow> string \<Rightarrow> jsval" where
  "the_prop v k = (case get_prop v k of Some x \<Rightarrow> x | None \<Rightarrow> JUndefined)"

definition to_record :: "env \<Rightarrow> jsval \<Rightarrow> mapped" where
  "to_record ev expense =
     (case the_prop expense ''description'' of
        JStr d \<Rightarrow>
          (case (the_prop expense ''id'', the_prop expense ''amount'', the_prop expense ''date'') of
             (JStr i, JNum a, JStr dt) \<Rightarrow>
               (let c = the_prop expense ''category'';
                    t = the_prop expense ''timestamp''
                in if (truthy c \<and> (case c of JStr cs \<Rightarrow> False | _ \<Rightarrow> True))
                      \<or> (truthy t \<and> (case t of JNum n \<Rightarrow> n \<noteq> of_int \<lfloor>n\<rfloor> | _ \<Rightarrow> True))
                   then IllTyped
                   else Mapped
                     \<lparr>eid = i, description = trim d, amount = round2 a, date = dt,
                      category = (case c of JStr cs \<Rightarrow> if cs \<noteq> [] then cs else ''other''
                                  | _ \<Rightarrow> ''other''),
                      timestamp = (case t of JNum n \<Rightarrow> if n \<noteq> 0 then Some \<lfloor>n\<rfloor>
                                                        else date_parse ev dt
                                   | _ \<Rightarrow> date_parse ev dt)\<rparr>)
           | _ \<Rightarrow> IllTyped)
      | _ \<Rightarrow> TypeError)"

text \<open>\<^verbatim>\<open>parsed.filter(...).map(...)\<close>: the filter runs over the whole array first; an
  exception in either pass abandons the computation.\<close>

datatype validation = Thrown | Untypable | Validated "Expense list"

definition validate :: "env \<Rightarrow> jsval list \<Rightarrow> validation" where
  "validate ev parsed =
     (if None \<in> set (map keep_record parsed) then Thrown
      else let kept = filter (\<lambda>e. keep_record e = Some True) parsed;
               recs = map (to_record ev) kept
           in if TypeError \<in> set recs then Thrown
              else if IllTyped \<in> set recs then Untypable
              else Validated (concat (map (\<lambda>r. case r of Mapped x \<Rightarrow> [x] | _ \<Rightarrow> []) recs)))"

text \<open>The test of \<^verbatim>\<open>parsed.filter\<close> on an element whose properties can be read, and the
  types under which the object that the \<^verbatim>\<open>.map\<close> callback builds is a record of this model:
  strings for id, description and date, a number for the amount, a string for a category
  that is truthy and a whole number for a timestamp that is truthy.\<close>

definition is_string :: "jsval \<Rightarrow> bool" where
  "is_string v = (case v of JStr s \<Rightarrow> True | _ \<Rightarrow> False)"

definition js_string :: "jsval \<Rightarrow> string" where
  "js_string v = (case v of JStr s \<Rightarrow> s | _ \<Rightarrow> [])"

definition js_number :: "jsval \<Rightarrow> rat" where
  "js_number v = (case v of JNum n \<Rightarrow> n | _ \<Rightarrow> 0)"

definition has_required_fields :: "jsval \<Rightarrow> bool" where
  "has_required_fields e =
     (truthy (the_prop e ''id'') \<and> truthy (the_prop e ''description'')
      \<and> is_number (the_prop e ''amount'') \<and> truthy (the_prop e ''date''))"

definition has_Expense_types :: "jsval \<Rightarrow> bool" where
  "has_Expense_types e =
     (is_string (the_prop e ''id'') \<and> is_string (the_prop e ''description'')
      \<and> is_number (the_prop e ''amount'') \<and> is_string (the_prop e ''date'')
      \<and> (truthy (the_prop e ''category'') \<longrightarrow> is_string (the_prop e ''category''))
      \<and> (truthy (the_prop e ''timestamp'') \<longrightarrow>
           is_number (the_prop e ''timestamp'')
           \<and> js_number (the_prop e ''timestamp'')
               = of_int \<lfloor>js_number (the_prop e ''timestamp'')\<rfloor>))"

text \<open>The inner \<^verbatim>\<open>catch\<close>: remove the key, then empty the list; a failing removal is
  caught by the outer \<^verbatim>\<open>catch\<close>, which records the message.\<close>

definition discard_stored :: "env \<Rightarrow> provider_state \<Rightarrow> provider_state" where
  "discard_stored ev s =
     (case removeItem_error ev of
        Some msg \<Rightarrow> s\<lparr>st_error := Some msg\<rparr>
      | None \<Rightarrow> s\<lparr>st_storage := (st_storage s)(STORAGE_KEY := None), st_expenses := []\<rparr>)"

text \<open>The part of \<^verbatim>\<open>loadStoredData\<close> that concerns the records; the part that reads the
  budget, independent of it, and the \<^verbatim>\<open>loading\<close> flag are left out. \<open>shouldSave\<close> is
  \<^verbatim>\<open>shouldSaveRef.current\<close>. The function never raises; \<open>None\<close> stands for a payload whose
  records the typed store cannot hold.\<close>

definition loadStoredData :: "env \<Rightarrow> bool \<Rightarrow> provider_state \<Rightarrow> provider_state option" where
  "loadStoredData ev shouldSave s0 =
     (if shouldSave then Some s0
      else let s = s0\<lparr>st_error := None\<rparr>
           in case getItem_error ev of
                Some msg \<Rightarrow> Some (s\<lparr>st_error := Some msg\<rparr>)
              | None \<Rightarrow>
                  (case st_storage s STORAGE_KEY of
                     None \<Rightarrow> Some s
                   | Some storedExpenses \<Rightarrow>
                       if storedExpenses = [] then Some s
                       else (case json_parse ev storedExpenses of
                               None \<Rightarrow> Some (discard_stored ev s)
                             | Some (JArr parsed) \<Rightarrow>
                                 (case validate ev parsed of
                                    Thrown \<Rightarrow> Some (discard_stored ev s)
                                  | Untypable \<Rightarrow> None
                                  | Validated validated \<Rightarrow>
                                      Some (s\<lparr>st_expenses := validated\<rparr>))
                             | Some other \<Rightarrow> Some s)))"

subsection \<open>Submitting the form (\<^verbatim>\<open>handleSubmit\<close>)\<close>

text \<open>The state of the form: the two text fields, the selected category and the record
  being edited, if any.\<close>

record form =
  f_description :: string
  f_amount :: string
  f_selectedCategory :: string
  f_editingExpense :: "Expense option"

datatype submit_result =
  DescriptionRequired | InvalidAmount | Submitted "js_error + unit"

definition expenseData :: "env \<Rightarrow> form \<Rightarrow> rat \<Rightarrow> expense_input" where
  "expenseData ev f amountNum =
     \<lparr>in_description = trim (f_description f), in_amount = round2 amountNum,
      in_date = toLocaleDateString ev (date_now ev), in_category = f_selectedCategory f\<rparr>"

definition handleSubmit :: "env \<Rightarrow> provider_state \<Rightarrow> form \<Rightarrow> submit_result \<times> provider_state" where
  "handleSubmit ev s f =
     (if trim (f_description f) = [] then (DescriptionRequired, s)
      else case parseFloat ev (f_amount f) of
             None \<Rightarrow> (InvalidAmount, s)
           | Some amountNum \<Rightarrow>
               if amountNum \<le> 0 then (InvalidAmount, s)
               else let r = (case f_editingExpense f of
                               Some editing \<Rightarrow>
                                 updateExpense ev s (eid editing) (expenseData ev f amountNum)
                             | None \<Rightarrow> addExpense ev s (expenseData ev f amountNum))
                    in case fst r of
                         Inl err \<Rightarrow>
                           (Submitted (fst r),
                            (snd r)\<lparr>st_alerts := st_alerts (snd r)
                               @ [ErrorAlert ''Failed to save expense. Please try again.'']\<rparr>)
                       | Inr u \<Rightarrow> (Submitted (fst r), snd r))"

subsection \<open>Analytics: filter, chart, category breakdown\<close>

text \<open>The values of the \<^verbatim>\<open>dateFilter\<close> state.\<close>

datatype date_filter = FilterAll | FilterToday | FilterWeek | FilterMonth | FilterCustom

text \<open>\<^verbatim>\<open>filterExpenses\<close>. The record's date is normalised to local midnight; an invalid
  date compares false. \<open>startDate\<close> and \<open>endDate\<close> are \<open>None\<close> when not set.\<close>

definition normalised_date :: "int \<Rightarrow> (string \<Rightarrow> int option) \<Rightarrow> Expense \<Rightarrow> int option" where
  "normalised_date tza parse expense =
     map_option (\<lambda>t. setHours tza t 0 0 0 0) (expense_time parse expense)"

definition between :: "int \<Rightarrow> int option \<Rightarrow> int \<Rightarrow> bool" where
  "between lo d hi = (case d of Some t \<Rightarrow> lo \<le> t \<and> t \<le> hi | None \<Rightarrow> False)"

definition filterExpenses ::
  "int \<Rightarrow> (string \<Rightarrow> int option) \<Rightarrow> int \<Rightarrow> date_filter \<Rightarrow> int option \<Rightarrow> int option \<Rightarrow>
   Expense list \<Rightarrow> Expense list" where
  "filterExpenses tza parse now dateFilter startDate endDate allExpenses =
     (if allExpenses = [] then allExpenses
      else let today = setHours tza now 0 0 0 0
           in filter (\<lambda>expense.
                let expenseDate = normalised_date tza parse expense
                in case dateFilter of
                     FilterToday \<Rightarrow> expenseDate = Some today
                   | FilterWeek \<Rightarrow>
                       (let weekAgo = setDate tza today (getDate tza today - 7)
                        in between weekAgo expenseDate today)
                   | FilterMonth \<Rightarrow>
                       (let monthAgo = setMonth tza today (getMonth tza today - 1)
                        in between monthAgo expenseDate today)
                   | FilterCustom \<Rightarrow>
                       (case (startDate, endDate) of
                          (Some sd, Some ed) \<Rightarrow> between sd expenseDate ed
                        | _ \<Rightarrow> True)
                   | FilterAll \<Rightarrow> True) allExpenses)"

text \<open>\<^verbatim>\<open>getChartData\<close>: the days of the chart, then the total of each day; the labels are
  left out.\<close>

definition days_from :: "int \<Rightarrow> int \<Rightarrow> nat \<Rightarrow> int list" where
  "days_from tza startPoint n =
     map (\<lambda>i. setDate tza startPoint (getDate tza startPoint + int i)) [0..<n]"

definition chart_days :: "int \<Rightarrow> int \<Rightarrow> date_filter \<Rightarrow> int option \<Rightarrow> int option \<Rightarrow> int list" where
  "chart_days tza now dateFilter startDate endDate =
     (let today = setHours tza now 0 0 0 0
      in case dateFilter of
           FilterToday \<Rightarrow> [today]
         | FilterWeek \<Rightarrow> days_from tza (setDate tza today (getDate tza today - 6)) 7
         | FilterMonth \<Rightarrow> days_from tza (setDate tza today (getDate tza today - 29)) 30
         | FilterCustom \<Rightarrow>
             (case (startDate, endDate) of
                (Some sd, Some ed) \<Rightarrow>
                  days_from tza sd (nat (- ((sd - ed) div msPerDay) + 1))
              | _ \<Rightarrow> [today])
         | FilterAll \<Rightarrow> days_from tza (setDate tza today (getDate tza today - 29)) 30)"

definition day_total :: "int \<Rightarrow> (string \<Rightarrow> int option) \<Rightarrow> Expense list \<Rightarrow> int \<Rightarrow> rat" where
  "day_total tza parse expenses day =
     (let dayStart = setHours tza day 0 0 0 0;
          dayEnd = setHours tza day 23 59 59 999
      in round2 (foldl (\<lambda>running expense.
                   if between dayStart (expense_time parse expense) dayEnd
                   then running + amount expense else running) 0 expenses))"

definition getChartData ::
  "int \<Rightarrow> (string \<Rightarrow> int option) \<Rightarrow> int \<Rightarrow> Expense list \<Rightarrow> date_filter \<Rightarrow> int option \<Rightarrow>
   int option \<Rightarrow> rat list" where
  "getChartData tza parse now expenses dateFilter startDate endDate =
     map (day_total tza parse expenses) (chart_days tza now dateFilter startDate endDate)"

text \<open>The fixed category set of the analytics screen: id and display name (the colours are
  left out).\<close>

definition categories :: "(string \<times> string) list" where
  "categories =
     [(''food'', ''Food''), (''transport'', ''Transport''), (''shopping'', ''Shopping''),
      (''bills'', ''Bills''), (''entertainment'', ''Entertainment''), (''other'', ''Other'')]"

text \<open>A rounded quotient: finite, or infinite when the divisor is zero.\<close>

datatype js_int = Finite int | PosInfinity | NegInfinity

definition round_percent :: "rat \<Rightarrow> rat \<Rightarrow> js_int" where
  "round_percent x t =
     (if t = 0 then (if 0 < x then PosInfinity else NegInfinity)
      else Finite (Math_round (x / t * 100)))"

record category_datum =
  cd_name :: string
  cd_amount :: rat
  cd_percentage :: js_int

text \<open>\<^verbatim>\<open>expense.category || 'other'\<close>.\<close>

definition eff_cat :: "Expense \<Rightarrow> string" where
  "eff_cat e = (if category e \<noteq> [] then category e else ''other'')"

definition add_to_category :: "(string \<times> rat) list \<Rightarrow> Expense \<Rightarrow> (string \<times> rat) list" where
  "add_to_category acc expense =
     (let cat = eff_cat expense
      in obj_set acc cat (get_or_0 acc cat + amount expense))"

definition getCategoryData :: "Expense list \<Rightarrow> category_datum list" where
  "getCategoryData expenses =
     (let categoryTotals = foldl add_to_category [] expenses
      in map (\<lambda>(cid, name).
                \<lparr>cd_name = name,
                 cd_amount = round2 (get_or_0 categoryTotals cid),
                 cd_percentage =
                   (if get_or_0 categoryTotals cid \<noteq> 0
                    then round_percent (get_or_0 categoryTotals cid)
                           (sum_list (map snd categoryTotals))
                    else Finite 0)\<rparr>) categories)"

definition getTotalSpent :: "Expense list \<Rightarrow> rat" where
  "getTotalSpent expenses = round2 (foldl (\<lambda>running e. running + amount e) 0 expenses)"


subsection \<open>Analytics: the advisory tip (\<^verbatim>\<open>getMoneySavingTip\<close>)\<close>










subsection \<open>The decision table of the tip, in terms of the records\<close>









subsection \<open>Example data\<close>

text \<open>A budget of 5000 per month with a limit of 2000 on food, and three records: two in
  March 2024 (3000 and 1500) and one in February. The clock reads 15 March 2024, 16:23
  in a zone five and a half hours ahead of UTC.\<close>

definition ex_budget :: Budget where
  "ex_budget =
     \<lparr>budget_amount = 5000, period = monthly, categoryLimits = Some [(''food'', 2000)]\<rparr>"

definition ex_expenses :: "Expense list" where
  "ex_expenses =
     [\<lparr>eid = ''1'', description = ''rent'', amount = 3000, date = ''05/03/2024'',
       category = ''bills'', timestamp = Some 1709620200000\<rparr>,
      \<lparr>eid = ''2'', description = ''groceries'', amount = 1500, date = ''10/03/2024'',
       category = ''food'', timestamp = Some 1710009000000\<rparr>,
      \<lparr>eid = ''3'', description = ''dinner'', amount = 999, date = ''20/02/2024'',
       category = ''food'', timestamp = Some 1708367400000\<rparr>]"

text \<open>Four records dated 1, 3, 7 and 10 days before the day of the clock, at noon.\<close>

definition ex_week_expenses :: "Expense list" where
  "ex_week_expenses =
     [\<lparr>eid = ''a'', description = ''lunch'', amount = 10, date = ''14/03/2024'',
       category = ''food'', timestamp = Some 1710397800000\<rparr>,
      \<lparr>eid = ''b'', description = ''bus'', amount = 20, date = ''12/03/2024'',
       category = ''transport'', timestamp = Some 1710225000000\<rparr>,
      \<lparr>eid = ''c'', description = ''book'', amount = 40, date = ''08/03/2024'',
       category = ''shopping'', timestamp = Some 1709879400000\<rparr>,
      \<lparr>eid = ''d'', description = ''rent'', amount = 80, date = ''05/03/2024'',
       category = ''bills'', timestamp = Some 1709620200000\<rparr>]"

text \<open>The three records and one of 100 in the category gym, which the user added.\<close>

definition ex_with_gym :: "Expense list" where
  "ex_with_gym =
     ex_expenses
     @ [\<lparr>eid = ''4'', description = ''membership'', amount = 100, date = ''12/03/2024'',
         category = ''gym'', timestamp = Some 1710225000000\<rparr>]"



text \<open>Three persisted payloads: the JSON string \<^verbatim>\<open>"not an array"\<close>, an array with one
  record whose amount is \<open>-5\<close>, and the same array with \<^verbatim>\<open>null\<close> in front of the record;
  \<open>ex_parse\<close> is \<^verbatim>\<open>JSON.parse\<close> on these three texts and throws on every other text.\<close>

definition quoted :: "string \<Rightarrow> string" where
  "quoted s = CHR 0x22 # s @ [CHR 0x22]"

definition ex_not_array :: string where
  "ex_not_array = quoted ''not an array''"

definition ex_negative :: string where
  "ex_negative =
     ''[{'' @ quoted ''id'' @ '':'' @ quoted ''9'' @ '','' @ quoted ''description'' @ '':''
     @ quoted ''refund'' @ '','' @ quoted ''amount'' @ '':-5,'' @ quoted ''date'' @ '':''
     @ quoted ''01/03/2024'' @ ''}]''"

definition ex_with_null :: string where
  "ex_with_null =
     ''[null,{'' @ quoted ''id'' @ '':'' @ quoted ''9'' @ '','' @ quoted ''description'' @ '':''
     @ quoted ''refund'' @ '','' @ quoted ''amount'' @ '':-5,'' @ quoted ''date'' @ '':''
     @ quoted ''01/03/2024'' @ ''}]''"

definition ex_parse :: "string \<Rightarrow> jsval option" where
  "ex_parse p =
     (if p = ex_not_array then Some (JStr ''not an array'')
      else if p = ex_negative
      then Some (JArr [JObj [(''id'', JStr ''9''), (''description'', JStr ''refund''),
                             (''amount'', JNum (- 5)), (''date'', JStr ''01/03/2024'')]])
      else if p = ex_with_null
      then Some (JArr [JNull,
                       JObj [(''id'', JStr ''9''), (''description'', JStr ''refund''),
                             (''amount'', JNum (- 5)), (''date'', JStr ''01/03/2024'')]])
      else None)"

text \<open>The provider's state at start-up, with \<open>payload\<close> persisted under the records' key.\<close>

definition ex_startup :: "string \<Rightarrow> provider_state" where
  "ex_startup payload =
     \<lparr>st_expenses = [], st_budget = None, st_error = None,
      st_storage = [STORAGE_KEY \<mapsto> payload], st_alerts = []\<rparr>"

text \<open>\<^verbatim>\<open>parseFloat\<close> on the two amounts typed in the examples; every other text is taken
  to give \<^verbatim>\<open>NaN\<close>.\<close>

definition ex_parseFloat :: "string \<Rightarrow> rat option" where
  "ex_parseFloat a =
     (if a = ''0.004'' then Some (1 / 250) else if a = ''12.5'' then Some (25 / 2) else None)"

definition ex_form :: "string \<Rightarrow> form" where
  "ex_form a =
     \<lparr>f_description = '' tea '', f_amount = a, f_selectedCategory = ''food'',
      f_editingExpense = None\<rparr>"

definition ex_env :: "bool \<Rightarrow> string option \<Rightarrow> env" where
  "ex_env answer failure =
     \<lparr>local_tza = 19800000, date_parse = (\<lambda>d. None),
      json_stringify = (\<lambda>xs. concat (map eid xs)), json_parse = ex_parse,
      number_toString = (\<lambda>n. ''1710500000000''), parseFloat = ex_parseFloat,
      toLocaleDateString = (\<lambda>t. ''15/03/2024''), date_now = 1710500000000,
      alert_answer = answer, setItem_error = failure, getItem_error = None,
      removeItem_error = None\<rparr>"

definition ex_state :: provider_state where
  "ex_state =
     \<lparr>st_expenses = ex_expenses, st_budget = Some ex_budget, st_error = None,
      st_storage = Map.empty, st_alerts = []\<rparr>"

definition ex_input :: "rat \<Rightarrow> string \<Rightarrow> expense_input" where
  "ex_input a c = \<lparr>in_description = ''coffee'', in_amount = a, in_date = ''15/03/2024'', in_category = c\<rparr>"

section \<open>Properties\<close>

subsection \<open>Calendar lemmas\<close>

text \<open>The year search terminates because every year has at least 365 days.\<close>

lemma div_succ:
  assumes "(0::int) < k"
  shows "(a + 1) div k = a div k + (if (a + 1) mod k = 0 then 1 else 0)"
proof -
  define q r where "q = a div k" and "r = a mod k"
  have a: "a = k * q + r" "0 \<le> r" "r < k"
    using assms by (simp_all add: q_def r_def)
  show ?thesis
  proof (cases "r + 1 = k")
    case True
    then have e: "a + 1 = k * (q + 1) + 0" using a by (simp add: algebra_simps)
    have "(a + 1) div k = q + 1" using assms by (subst e) simp
    moreover have "(a + 1) mod k = 0" by (subst e) simp
    ultimately show ?thesis by (simp add: q_def)
  next
    case False
    then have r: "0 \<le> r + 1" "r + 1 < k" using a by simp_all
    have e: "a + 1 = k * q + (r + 1)" using a by simp
    have "(a + 1) div k = q"
      using r by (subst e) (rule int_div_pos_eq [OF refl], simp_all)
    moreover have "(a + 1) mod k = r + 1"
      using r by (subst e) (rule int_mod_pos_eq [OF refl], simp_all)
    moreover have "r + 1 \<noteq> 0" using a by simp
    ultimately show ?thesis by (simp add: q_def)
  qed
qed

lemma mod_sub_mult: "((y::int) - c * k) mod k = y mod k"
  by (metis mod_mult_self1 diff_add_cancel add.commute mult.commute)

lemma mod_dvd_zero: "(y::int) mod m = 0 \<Longrightarrow> k dvd m \<Longrightarrow> y mod k = 0"
proof -
  assume "y mod m = 0" and k: "k dvd m"
  then have "m dvd y" by (simp add: dvd_eq_mod_eq_0)
  with k have "k dvd y" by (rule dvd_trans)
  then show ?thesis by simp
qed

lemma DayFromYear_step: "DayFromYear (y + 1) = DayFromYear y + DaysInYear y"
proof -
  have a: "(y - 1968) div 4 = (y - 1969) div 4 + (if y mod 4 = 0 then 1 else 0)"
    using div_succ [of 4 "y - 1969"] mod_sub_mult [of y 492 4] by simp
  have b: "(y - 1900) div 100 = (y - 1901) div 100 + (if y mod 100 = 0 then 1 else 0)"
    using div_succ [of 100 "y - 1901"] mod_sub_mult [of y 19 100] by simp
  have c: "(y - 1600) div 400 = (y - 1601) div 400 + (if y mod 400 = 0 then 1 else 0)"
    using div_succ [of 400 "y - 1601"] mod_sub_mult [of y 4 400] by simp
  have d1: "y mod 400 = 0 \<Longrightarrow> y mod 100 = 0"
    by (erule mod_dvd_zero) simp
  have d2: "y mod 100 = 0 \<Longrightarrow> y mod 4 = 0"
    by (erule mod_dvd_zero) simp
  define A B C where "A = (y - 1969) div 4" and "B = (y - 1901) div 100"
    and "C = (y - 1601) div 400"
  have e: "DayFromYear (y + 1) =
          365 * (y - 1969) + (y - 1968) div 4 - (y - 1900) div 100 + (y - 1600) div 400"
    by (simp add: DayFromYear_def)
  have f: "DayFromYear y = 365 * (y - 1970) + A - B + C"
    by (simp add: DayFromYear_def A_def B_def C_def)
  show ?thesis
  proof (cases "y mod 4 = 0")
    case False
    from d2 False have n100: "y mod 100 \<noteq> 0" by (intro notI) simp
    from d1 n100 have "y mod 400 \<noteq> 0" by (intro notI) simp
    with False n100 show ?thesis
      unfolding e f a b c A_def [symmetric] B_def [symmetric] C_def [symmetric] DaysInYear_def
      by (simp only: if_False if_True not_False_eq_True not_not) simp
  next
    case m4: True
    show ?thesis
    proof (cases "y mod 100 = 0")
      case False
      with d1 have "y mod 400 \<noteq> 0" by (intro notI) simp
      with False m4 show ?thesis
        unfolding e f a b c A_def [symmetric] B_def [symmetric] C_def [symmetric] DaysInYear_def
        by (simp only: if_False if_True not_False_eq_True not_not) simp
    next
      case m100: True
      show ?thesis
      proof (cases "y mod 400 = 0")
        case False
        with m4 m100 show ?thesis
          unfolding e f a b c A_def [symmetric] B_def [symmetric] C_def [symmetric] DaysInYear_def
          by (simp only: if_False if_True not_False_eq_True not_not) simp
      next
        case True
        with m4 m100 show ?thesis
          unfolding e f a b c A_def [symmetric] B_def [symmetric] C_def [symmetric] DaysInYear_def
          by (simp only: if_False if_True not_False_eq_True not_not) simp
      qed
    qed
  qed
qed

lemma DayFromYear_pred_less: "DayFromYear (y - 1) < DayFromYear y"
  using DayFromYear_step [of "y - 1"] by (simp add: DaysInYear_def split: if_splits)

termination year_down
proof (relation "measure (\<lambda>(y, d). nat (DayFromYear y - d))")
  show "wf (measure (\<lambda>(y, d). nat (DayFromYear y - d)))" by simp
next
  fix y d :: int
  assume "\<not> DayFromYear y \<le> d"
  then show "((y - 1, d), (y, d)) \<in> measure (\<lambda>(y, d). nat (DayFromYear y - d))"
    using DayFromYear_pred_less [of y] by simp
qed

declare year_down.simps [simp del]

lemma year_down_spec:
  "d < DayFromYear (y + 1) \<Longrightarrow>
   DayFromYear (year_down y d) \<le> d \<and> d < DayFromYear (year_down y d + 1)"
proof (induction y d rule: year_down.induct)
  case (1 y d)
  show ?case
  proof (cases "DayFromYear y \<le> d")
    case True
    with "1.prems" show ?thesis by (simp add: year_down.simps)
  next
    case False
    then have "d < DayFromYear (y - 1 + 1)" by simp
    with "1.IH" False show ?thesis by (simp add: year_down.simps [of y d])
  qed
qed

lemma DayFromYear_lower: "1970 \<le> y \<Longrightarrow> 365 * (y - 1970) \<le> DayFromYear y"
proof (induction "nat (y - 1970)" arbitrary: y)
  case 0
  then have "y = 1970" by simp
  then show ?case by (simp add: DayFromYear_def)
next
  case (Suc n)
  then have "n = nat ((y - 1) - 1970)" and "1970 \<le> y - 1" by simp_all
  then have "365 * ((y - 1) - 1970) \<le> DayFromYear (y - 1)" using Suc.hyps(1) by blast
  moreover have "365 \<le> DaysInYear (y - 1)" by (simp add: DaysInYear_def)
  ultimately show ?case using DayFromYear_step [of "y - 1"] by simp
qed

lemma YearFromDay_spec:
  "DayFromYear (YearFromDay d) \<le> d \<and> d < DayFromYear (YearFromDay d + 1)"
proof -
  let ?y = "1971 + max 0 (d div 365)"
  have "365 * (?y + 1 - 1970) \<le> DayFromYear (?y + 1)"
    by (rule DayFromYear_lower) simp
  moreover have "d < 365 * (?y + 1 - 1970)"
  proof -
    have "d = 365 * (d div 365) + d mod 365" by simp
    moreover have "d mod 365 < 365" by simp
    ultimately show ?thesis by (simp add: max_def) linarith
  qed
  ultimately have "d < DayFromYear (?y + 1)" by linarith
  then show ?thesis unfolding YearFromDay_def by (rule year_down_spec)
qed

lemma DayFromYear_mono: "y \<le> z \<Longrightarrow> DayFromYear y \<le> DayFromYear z"
proof (induction "nat (z - y)" arbitrary: z)
  case 0
  then show ?case by simp
next
  case (Suc n)
  then have "n = nat ((z - 1) - y)" and "y \<le> z - 1" by simp_all
  then have "DayFromYear y \<le> DayFromYear (z - 1)" using Suc.hyps(1) by blast
  with DayFromYear_pred_less [of z] show ?case by simp
qed

lemma YearFromDay_unique:
  assumes "DayFromYear y \<le> d" and "d < DayFromYear (y + 1)"
  shows "YearFromDay d = y"
proof (rule ccontr)
  assume ne: "YearFromDay d \<noteq> y"
  let ?z = "YearFromDay d"
  from YearFromDay_spec [of d] have z: "DayFromYear ?z \<le> d" "d < DayFromYear (?z + 1)"
    by simp_all
  from ne consider "?z + 1 \<le> y" | "y + 1 \<le> ?z" by linarith
  then show False
  proof cases
    case 1
    from DayFromYear_mono [OF 1] z assms show False by simp
  next
    case 2
    from DayFromYear_mono [OF 2] z assms show False by simp
  qed
qed

lemma DayWithinYear_range:
  "0 \<le> DayWithinYear d \<and> DayWithinYear d < DaysInYear (YearFromDay d)"
  using YearFromDay_spec [of d] DayFromYear_step [of "YearFromDay d"]
  by (simp add: DayWithinYear_def)

lemma sorted_index_le:
  "sorted (a # xs) \<Longrightarrow> a \<le> x \<Longrightarrow>
   (a # xs) ! length (filter (\<lambda>s. s \<le> x) xs) \<le> (x::int)"
proof (induction xs arbitrary: a)
  case Nil
  then show ?case by simp
next
  case (Cons b ys)
  show ?case
  proof (cases "b \<le> x")
    case True
    with Cons.prems Cons.IH [of b] show ?thesis by simp
  next
    case False
    with Cons.prems have "\<forall>s \<in> set ys. \<not> s \<le> x" by auto
    then have "filter (\<lambda>s. s \<le> x) ys = []" by (simp add: filter_empty_conv)
    with False Cons.prems show ?thesis by simp
  qed
qed

lemma strict_sorted_index_count:
  "sorted_wrt (<) (a # xs) \<Longrightarrow> k < length (a # xs) \<Longrightarrow>
   length (filter (\<lambda>s. s \<le> (a # xs) ! k) xs) = k" for a :: int
proof (induction xs arbitrary: a k)
  case Nil
  then show ?case by simp
next
  case (Cons b ys)
  show ?case
  proof (cases k)
    case 0
    with Cons.prems have "\<forall>s \<in> set (b # ys). \<not> s \<le> (a # b # ys) ! k" by auto
    then have "filter (\<lambda>s. s \<le> (a # b # ys) ! k) (b # ys) = []"
      by (simp only: filter_empty_conv)
    with 0 show ?thesis by simp
  next
    case (Suc j)
    with Cons.prems have j: "j < length (b # ys)" and s: "sorted_wrt (<) (b # ys)"
      by simp_all
    have "b \<le> (b # ys) ! j"
    proof (cases j)
      case 0
      then show ?thesis by simp
    next
      case (Suc i)
      with j have "ys ! i \<in> set ys" by simp
      with s Suc show ?thesis by fastforce
    qed
    with Cons.IH [OF s j] Suc show ?thesis by simp
  qed
qed

lemma InLeapYear_cases: "InLeapYear d = 0 \<or> InLeapYear d = 1"
  by (simp add: InLeapYear_def)

lemma month_starts_sorted: "L = 0 \<or> L = 1 \<Longrightarrow> sorted_wrt (<) (month_starts L)"
  by (auto simp: month_starts_def)

lemma month_starts_Cons: "month_starts L = 0 # tl (month_starts L)"
  by (simp add: month_starts_def)

lemma MonthFromDay_less: "MonthFromDay d < 12"
proof -
  have "length (filter (\<lambda>s. s \<le> DayWithinYear d) (tl (month_starts (InLeapYear d))))
          \<le> length (tl (month_starts (InLeapYear d)))"
    by (rule length_filter_le)
  then show ?thesis by (simp add: MonthFromDay_def month_starts_def)
qed

lemma MonthStartDay_le: "MonthStartDay d \<le> d"
proof -
  let ?L = "InLeapYear d"
  have "sorted (month_starts ?L)"
    using month_starts_sorted [OF InLeapYear_cases [of d]]
    by (rule strict_sorted_imp_sorted)
  then have "sorted (0 # tl (month_starts ?L))"
    using month_starts_Cons [of ?L] by simp
  from sorted_index_le [OF this, of "DayWithinYear d"] DayWithinYear_range [of d]
  have "month_starts ?L ! MonthFromDay d \<le> DayWithinYear d"
    using month_starts_Cons [of ?L] by (simp add: MonthFromDay_def)
  then show ?thesis by (simp add: MonthStartDay_def DayWithinYear_def)
qed

lemma month_starts_nonneg: "L = 0 \<or> L = 1 \<Longrightarrow> k < 12 \<Longrightarrow> 0 \<le> month_starts L ! k"
proof -
  assume L: "L = 0 \<or> L = 1" and k: "k < 12"
  have "\<forall>s \<in> set (month_starts L). 0 \<le> s" using L by (auto simp: month_starts_def)
  moreover have "k < length (month_starts L)" using k by (simp add: month_starts_def)
  ultimately show ?thesis by simp
qed

lemma YearFromDay_MonthStartDay: "YearFromDay (MonthStartDay d) = YearFromDay d"
proof (rule YearFromDay_unique)
  show "DayFromYear (YearFromDay d) \<le> MonthStartDay d"
    using month_starts_nonneg [OF InLeapYear_cases [of d] MonthFromDay_less [of d]]
    by (simp add: MonthStartDay_def)
  show "MonthStartDay d < DayFromYear (YearFromDay d + 1)"
    using MonthStartDay_le [of d] YearFromDay_spec [of d] by linarith
qed

lemma MonthFromDay_MonthStartDay: "MonthFromDay (MonthStartDay d) = MonthFromDay d"
proof -
  let ?L = "InLeapYear d"
  have L: "InLeapYear (MonthStartDay d) = ?L"
    by (simp add: InLeapYear_def YearFromDay_MonthStartDay)
  have w: "DayWithinYear (MonthStartDay d) = month_starts ?L ! MonthFromDay d"
    by (simp add: DayWithinYear_def YearFromDay_MonthStartDay) (simp add: MonthStartDay_def)
  have s: "sorted_wrt (<) (0 # tl (month_starts ?L))"
    using month_starts_sorted [OF InLeapYear_cases [of d]] month_starts_Cons [of ?L] by simp
  have k: "MonthFromDay d < length (0 # tl (month_starts ?L))"
    using MonthFromDay_less [of d] by (simp add: month_starts_def)
  from strict_sorted_index_count [OF s k] show ?thesis
    using month_starts_Cons [of ?L] by (simp add: MonthFromDay_def [of "MonthStartDay d"] L w)
qed

lemma MonthStartDay_idem: "MonthStartDay (MonthStartDay d) = MonthStartDay d"
  by (simp add: MonthStartDay_def [of "MonthStartDay d"] YearFromDay_MonthStartDay
      MonthFromDay_MonthStartDay InLeapYear_def) (simp add: MonthStartDay_def InLeapYear_def)

lemma DateFromDay_MonthStartDay: "DateFromDay (MonthStartDay d) = 1"
  by (simp add: DateFromDay_def MonthStartDay_idem)

lemma TimeWithinDay_range: "0 \<le> TimeWithinDay t \<and> TimeWithinDay t < msPerDay"
  by (simp add: TimeWithinDay_def msPerDay_def)

lemma Day_mult_add: "0 \<le> r \<Longrightarrow> r < msPerDay \<Longrightarrow> Day (k * msPerDay + r) = k"
  unfolding Day_def by (rule int_div_pos_eq [of _ _ _ r]) (simp_all add: mult.commute)

lemma TimeWithinDay_mult: "TimeWithinDay (k * msPerDay) = 0"
  by (simp add: TimeWithinDay_def)

lemma Day_mult: "Day (k * msPerDay) = k"
  using Day_mult_add [of 0 k] by (simp add: msPerDay_def)

lemma LocalTime_UTC: "LocalTime tza (UTC tza x) = x"
  by (simp add: LocalTime_def UTC_def)

lemma LocalTime_setHours0: "LocalTime tza (setHours tza t 0 0 0 0) = Day (LocalTime tza t) * msPerDay"
  by (simp add: setHours_def LocalTime_UTC)

lemma Day_LocalTime_setDate:
  "Day (LocalTime tza (setDate tza t dt)) = MonthStartDay (Day (LocalTime tza t)) + dt - 1"
  using TimeWithinDay_range [of "LocalTime tza t"]
  by (simp add: setDate_def LocalTime_UTC Day_mult_add)

lemma startOfPeriod_daily:
  "LocalTime tza (startOfPeriod tza daily now) = Day (LocalTime tza now) * msPerDay"
  by (simp add: startOfPeriod_def LocalTime_setHours0)

lemma startOfPeriod_weekly:
  "LocalTime tza (startOfPeriod tza weekly now) =
     (Day (LocalTime tza now) - WeekDay (LocalTime tza now)) * msPerDay"
  by (simp add: startOfPeriod_def LocalTime_setHours0 Day_LocalTime_setDate getDate_def
      getDay_def DateFromDay_def)

lemma startOfPeriod_monthly:
  "LocalTime tza (startOfPeriod tza monthly now) =
     MonthStartDay (Day (LocalTime tza now)) * msPerDay"
  by (simp add: startOfPeriod_def LocalTime_setHours0 Day_LocalTime_setDate)

lemma WeekDay_range: "0 \<le> WeekDay t \<and> WeekDay t < 7"
  by (simp add: WeekDay_def)

lemma WeekDay_week_start: "WeekDay ((Day t - WeekDay t) * msPerDay) = 0"
proof -
  have "(Day t + 4 - (Day t + 4) mod 7) mod 7 = 0"
    by (simp add: minus_mod_eq_mult_div)
  then show ?thesis by (simp add: WeekDay_def [of "_ * _"] Day_mult) (simp add: WeekDay_def algebra_simps)
qed

lemma get_or_0_obj_set:
  "get_or_0 (obj_set m k v) c = (if c = k then v else get_or_0 m c)"
  by (simp add: get_or_0_def obj_set_def update_conv')

lemma foldl_totals_fst:
  "fst (foldl add_to_totals (s, m) xs) = s + sum_list (map amount xs)"
  by (induction xs arbitrary: s m) (simp_all add: add_to_totals_def)

lemma foldl_totals_get:
  "get_or_0 (snd (foldl add_to_totals (s, m) xs)) c =
     get_or_0 m c + sum_list (map amount (filter (\<lambda>e. category e = c) xs))"
  by (induction xs arbitrary: s m) (simp_all add: add_to_totals_def get_or_0_obj_set)

lemma sum_values_obj_set:
  "distinct (map fst m) \<Longrightarrow>
   sum_list (map snd (obj_set m k v)) = sum_list (map snd m) - get_or_0 m k + v"
proof (induction m)
  case Nil
  then show ?case by (simp add: obj_set_def get_or_0_def)
next
  case (Cons p m)
  then show ?case
    by (cases p) (auto simp: obj_set_def get_or_0_def map_of_eq_None_iff image_iff split: option.splits)
qed

lemma distinct_obj_set: "distinct (map fst m) \<Longrightarrow> distinct (map fst (obj_set m k v))"
  by (simp add: obj_set_def distinct_update)

lemma foldl_totals_values:
  "distinct (map fst m) \<Longrightarrow>
   distinct (map fst (snd (foldl add_to_totals (s, m) xs))) \<and>
   sum_list (map snd (snd (foldl add_to_totals (s, m) xs))) =
     sum_list (map snd m) + sum_list (map amount xs)"
  by (induction xs arbitrary: s m)
    (simp_all add: add_to_totals_def sum_values_obj_set distinct_obj_set)

subsection \<open>Budget status\<close>

text \<open>
  C10. Without a configured budget, \<^verbatim>\<open>getBudgetStatus\<close> returns the fixed status
  \<^verbatim>\<open>{total: 0, remaining: 0, categoryTotals: {}, isOverBudget: false}\<close> for every
  record list: records are not summed and no over-budget condition is reported.
\<close>

theorem getBudgetStatus_no_budget:
  "getBudgetStatus tza parse None expenses now =
     \<lparr>total = 0, remaining = 0, categoryTotals = [], isOverBudget = False\<rparr>"
  by (simp add: getBudgetStatus_def)

lemma period_start_daily:
  "TimeWithinDay (LocalTime tza (startOfPeriod tza daily now)) = 0 \<and>
   Day (LocalTime tza (startOfPeriod tza daily now)) = Day (LocalTime tza now)"
  by (simp add: startOfPeriod_daily TimeWithinDay_mult Day_mult)

lemma period_start_weekly:
  "TimeWithinDay (LocalTime tza (startOfPeriod tza weekly now)) = 0 \<and>
   WeekDay (LocalTime tza (startOfPeriod tza weekly now)) = 0 \<and>
   Day (LocalTime tza (startOfPeriod tza weekly now)) \<le> Day (LocalTime tza now) \<and>
   Day (LocalTime tza now) < Day (LocalTime tza (startOfPeriod tza weekly now)) + 7"
  using WeekDay_range [of "LocalTime tza now"]
  by (simp add: startOfPeriod_weekly TimeWithinDay_mult Day_mult WeekDay_week_start)

lemma period_start_monthly:
  "TimeWithinDay (LocalTime tza (startOfPeriod tza monthly now)) = 0 \<and>
   DateFromDay (Day (LocalTime tza (startOfPeriod tza monthly now))) = 1 \<and>
   MonthFromDay (Day (LocalTime tza (startOfPeriod tza monthly now))) =
     MonthFromDay (Day (LocalTime tza now)) \<and>
   YearFromDay (Day (LocalTime tza (startOfPeriod tza monthly now))) =
     YearFromDay (Day (LocalTime tza now))"
  by (simp add: startOfPeriod_monthly TimeWithinDay_mult Day_mult DateFromDay_MonthStartDay
      MonthFromDay_MonthStartDay YearFromDay_MonthStartDay)

lemma on_or_after_iff:
  "on_or_after parse start e \<longleftrightarrow> (\<exists>t. expense_time parse e = Some t \<and> start \<le> t)"
  by (simp add: on_or_after_def split: option.splits)

lemma getBudgetStatus_Some:
  "getBudgetStatus tza parse (Some b) expenses now =
     (let xs = filter (on_or_after parse (startOfPeriod tza (period b) now)) expenses;
          r = foldl add_to_totals (0, []) xs
      in \<lparr>total = fst r, remaining = max 0 (budget_amount b - fst r),
          categoryTotals = snd r,
          isOverBudget =
            (fst r > budget_amount b \<or>
             (case categoryLimits b of
                Some limits \<Rightarrow> list_ex (\<lambda>(c, limit). get_or_0 (snd r) c > limit) limits
              | None \<Rightarrow> False))\<rparr>)"
  by (auto simp: getBudgetStatus_def Let_def split: prod.splits option.splits)

lemma filter_filter_conj: "filter P (filter Q xs) = filter (\<lambda>x. Q x \<and> P x) xs"
  by (induction xs) simp_all

text \<open>
  C1. For every record list, budget and instant \<open>now\<close>: the period start is the start
  of the current local calendar day (daily), the most recent Sunday at start of day
  (weekly), the first day of the current month at start of day (monthly); \<open>total\<close> is
  the sum of the amounts of exactly the records whose timestamp (the parsed date when
  the timestamp is missing) is at or after the period start; \<open>remaining\<close> is
  \<open>max 0 (budget.amount - total)\<close>; and \<open>isOverBudget\<close> holds exactly when the total
  exceeds the budget amount or some category's in-period total exceeds its configured
  limit.
\<close>

theorem getBudgetStatus_spec:
  "let today = Day (LocalTime tza now);
       start_of = (\<lambda>p. LocalTime tza (startOfPeriod tza p now));
       st = getBudgetStatus tza parse (Some b) expenses now;
       in_period = (\<lambda>e. \<exists>t. expense_time parse e = Some t
                            \<and> startOfPeriod tza (period b) now \<le> t);
       period_total = sum_list (map amount (filter in_period expenses));
       category_total = (\<lambda>c. sum_list (map amount
                            (filter (\<lambda>e. in_period e \<and> category e = c) expenses)));
       limits = (case categoryLimits b of Some ls \<Rightarrow> ls | None \<Rightarrow> [])
   in (TimeWithinDay (start_of daily) = 0 \<and> Day (start_of daily) = today)
    \<and> (TimeWithinDay (start_of weekly) = 0 \<and> WeekDay (start_of weekly) = 0
        \<and> Day (start_of weekly) \<le> today \<and> today < Day (start_of weekly) + 7)
    \<and> (TimeWithinDay (start_of monthly) = 0 \<and> DateFromDay (Day (start_of monthly)) = 1
        \<and> MonthFromDay (Day (start_of monthly)) = MonthFromDay today
        \<and> YearFromDay (Day (start_of monthly)) = YearFromDay today)
    \<and> total st = period_total
    \<and> remaining st = max 0 (budget_amount b - period_total)
    \<and> (isOverBudget st \<longleftrightarrow>
          period_total > budget_amount b
          \<or> (\<exists>(c, limit) \<in> set limits. category_total c > limit))"
proof -
  let ?start = "startOfPeriod tza (period b) now"
  let ?xs = "filter (on_or_after parse ?start) expenses"
  let ?r = "foldl add_to_totals (0, []) ?xs"
  let ?inP = "\<lambda>e. \<exists>t. expense_time parse e = Some t \<and> ?start \<le> t"
  have P: "on_or_after parse ?start = ?inP"
    by (rule ext) (rule on_or_after_iff)
  have t: "fst ?r = sum_list (map amount (filter ?inP expenses))"
    by (simp add: foldl_totals_fst P)
  have c: "get_or_0 (snd ?r) c =
             sum_list (map amount (filter (\<lambda>e. ?inP e \<and> category e = c) expenses))" for c
  proof -
    have "get_or_0 [] c = 0" by (simp add: get_or_0_def)
    then show ?thesis by (simp add: foldl_totals_get filter_filter_conj P)
  qed
  have o: "(case categoryLimits b of
              Some limits \<Rightarrow> list_ex (\<lambda>(c, limit). get_or_0 (snd ?r) c > limit) limits
            | None \<Rightarrow> False) \<longleftrightarrow>
           (\<exists>(c, limit) \<in> set (case categoryLimits b of Some ls \<Rightarrow> ls | None \<Rightarrow> []).
              sum_list (map amount (filter (\<lambda>e. ?inP e \<and> category e = c) expenses)) > limit)"
    by (auto simp: c list_ex_iff split: option.splits)
  show ?thesis
    unfolding Let_def getBudgetStatus_Some
    using period_start_daily [of tza now] period_start_weekly [of tza now]
      period_start_monthly [of tza now] t o
    by (simp add: Let_def)
qed

lemma ex_month_start: "startOfPeriod 19800000 monthly 1710500000000 = 1709231400000"
  by code_simp

theorem getBudgetStatus_spec_witness:
  "total (getBudgetStatus 19800000 (\<lambda>d. None) (Some ex_budget) ex_expenses 1710500000000) = 4500
   \<and> remaining (getBudgetStatus 19800000 (\<lambda>d. None) (Some ex_budget) ex_expenses 1710500000000) = 500
   \<and> \<not> isOverBudget (getBudgetStatus 19800000 (\<lambda>d. None) (Some ex_budget) ex_expenses 1710500000000)"
  using getBudgetStatus_spec [of 19800000 1710500000000 "\<lambda>d. None" ex_budget ex_expenses]
  by (simp add: Let_def ex_budget_def ex_expenses_def ex_month_start expense_time_def)

subsection \<open>The mutations of the store\<close>

lemma find_Some_mem: "find P xs = Some x \<Longrightarrow> x \<in> set xs \<and> P x"
  by (induction xs) (auto split: if_splits)

text \<open>
  C9. For every store state and every id, \<^verbatim>\<open>deleteExpense\<close> either removes exactly the
  records with that id, writes the new list and succeeds, or fails and leaves the
  record sequence (and storage) unchanged: with \<^verbatim>\<open>Expense not found\<close> when no record has
  the id, and with the optimistic removal rolled back when the write to storage fails.
\<close>

theorem deleteExpense_spec:
  "let outcome = deleteExpense ev s i; s' = snd outcome
   in if \<exists>e \<in> set (st_expenses s). eid e = i
      then (case setItem_error ev of
              None \<Rightarrow>
                fst outcome = Inr ()
                \<and> st_expenses s' = filter (\<lambda>e. eid e \<noteq> i) (st_expenses s)
                \<and> st_storage s' = (st_storage s)(STORAGE_KEY \<mapsto> json_stringify ev (st_expenses s'))
            | Some msg \<Rightarrow>
                fst outcome = Inl (Error ''Failed to save changes'')
                \<and> st_expenses s' = st_expenses s \<and> st_storage s' = st_storage s)
      else fst outcome = Inl (Error ''Expense not found'')
           \<and> st_expenses s' = st_expenses s \<and> st_storage s' = st_storage s"
proof (cases "find (\<lambda>e. eid e = i) (st_expenses s)")
  case None
  then have "\<not> (\<exists>e \<in> set (st_expenses s). eid e = i)"
    by (auto simp: find_None_iff)
  with None show ?thesis
    by (simp add: deleteExpense_def Let_def catch_delete_def)
next
  case (Some old)
  then have "\<exists>e \<in> set (st_expenses s). eid e = i"
    using find_Some_mem [of "\<lambda>e. eid e = i" "st_expenses s" old] by auto
  with Some show ?thesis
    by (simp add: deleteExpense_def Let_def catch_delete_def delete_optimistic_def
        split: option.splits)
qed

theorem deleteExpense_spec_witness:
  "fst (deleteExpense (ex_env True None) ex_state ''2'') = Inr ()
   \<and> map eid (st_expenses (snd (deleteExpense (ex_env True None) ex_state ''2''))) = [''1'', ''3'']
   \<and> fst (deleteExpense (ex_env True (Some ''disk full'')) ex_state ''2'') = Inl (Error ''Failed to save changes'')
   \<and> st_expenses (snd (deleteExpense (ex_env True (Some ''disk full'')) ex_state ''2'')) = ex_expenses
   \<and> fst (deleteExpense (ex_env True None) ex_state ''7'') = Inl (Error ''Expense not found'')
   \<and> st_expenses (snd (deleteExpense (ex_env True None) ex_state ''7'')) = ex_expenses"
  using deleteExpense_spec [of "ex_env True None" ex_state "''2''"]
    deleteExpense_spec [of "ex_env True (Some ''disk full'')" ex_state "''2''"]
    deleteExpense_spec [of "ex_env True None" ex_state "''7''"]
  by (simp add: Let_def ex_env_def ex_state_def ex_expenses_def)

text \<open>
  C3. When an add or an update triggers a budget warning and the user declines, the
  mutation is not applied: the record sequence and the storage contents are as before,
  and the outcome differs from a genuine failure: it carries the cancellation message,
  no error is recorded and no error alert is shown, whereas a failed write records the
  error and shows the error alert.
\<close>

theorem declined_warning_leaves_state:
  "(add_warning (st_budget s) (current_status ev (s\<lparr>st_error := None\<rparr>)) expense \<noteq> None
      \<and> \<not> alert_answer ev
    \<longrightarrow> fst (addExpense ev s expense) = Inl (Error ''Expense cancelled'')
        \<and> st_expenses (snd (addExpense ev s expense)) = st_expenses s
        \<and> st_storage (snd (addExpense ev s expense)) = st_storage s
        \<and> st_error (snd (addExpense ev s expense)) = None
        \<and> (\<forall>a \<in> set (st_alerts (snd (addExpense ev s expense))) - set (st_alerts s).
              \<exists>w. a = BudgetWarning w))
   \<and> (find (\<lambda>e. eid e = i) (st_expenses s) = Some old
      \<and> update_warning (st_budget s) (current_status ev (s\<lparr>st_error := None\<rparr>)) old expense \<noteq> None
      \<and> \<not> alert_answer ev
    \<longrightarrow> fst (updateExpense ev s i expense) = Inl (Error ''Update cancelled'')
        \<and> st_expenses (snd (updateExpense ev s i expense)) = st_expenses s
        \<and> st_storage (snd (updateExpense ev s i expense)) = st_storage s
        \<and> st_error (snd (updateExpense ev s i expense)) = None
        \<and> (\<forall>a \<in> set (st_alerts (snd (updateExpense ev s i expense))) - set (st_alerts s).
              \<exists>w. a = BudgetWarning w))
   \<and> (setItem_error ev = Some msg \<and> msg \<noteq> ''Expense cancelled''
      \<and> fst (addExpense ev s expense) \<noteq> Inl (Error ''Expense cancelled'')
    \<longrightarrow> fst (addExpense ev s expense) = Inl (Error msg)
        \<and> st_error (snd (addExpense ev s expense)) = Some msg
        \<and> ErrorAlert ''Failed to add expense. Please try again.''
            \<in> set (st_alerts (snd (addExpense ev s expense)))
        \<and> st_expenses (snd (addExpense ev s expense)) = st_expenses s)
   \<and> (find (\<lambda>e. eid e = i) (st_expenses s) = Some old
      \<and> setItem_error ev = Some msg \<and> msg \<noteq> ''Update cancelled''
      \<and> fst (updateExpense ev s i expense) \<noteq> Inl (Error ''Update cancelled'')
    \<longrightarrow> fst (updateExpense ev s i expense) = Inl (Error msg)
        \<and> st_error (snd (updateExpense ev s i expense)) = Some msg
        \<and> ErrorAlert ''Failed to update expense. Please try again.''
            \<in> set (st_alerts (snd (updateExpense ev s i expense)))
        \<and> st_expenses (snd (updateExpense ev s i expense)) = st_expenses s)"
  by (auto simp: addExpense_def updateExpense_def Let_def catch_mutation_def commit_def
      current_status_def split: option.splits)

theorem declined_warning_leaves_state_witness:
  "fst (addExpense (ex_env False None) ex_state (ex_input 600 ''food'')) = Inl (Error ''Expense cancelled'')
   \<and> st_expenses (snd (addExpense (ex_env False None) ex_state (ex_input 600 ''food''))) = ex_expenses
   \<and> st_storage (snd (addExpense (ex_env False None) ex_state (ex_input 600 ''food''))) = Map.empty
   \<and> fst (updateExpense (ex_env False None) ex_state ''2'' (ex_input 2500 ''food'')) = Inl (Error ''Update cancelled'')
   \<and> st_expenses (snd (updateExpense (ex_env False None) ex_state ''2'' (ex_input 2500 ''food''))) = ex_expenses
   \<and> fst (addExpense (ex_env True (Some ''disk full'')) ex_state (ex_input 600 ''food'')) = Inl (Error ''disk full'')
   \<and> st_error (snd (addExpense (ex_env True (Some ''disk full'')) ex_state (ex_input 600 ''food''))) = Some ''disk full''
   \<and> fst (updateExpense (ex_env True (Some ''disk full'')) ex_state ''2'' (ex_input 2500 ''food'')) = Inl (Error ''disk full'')
   \<and> st_expenses (snd (updateExpense (ex_env True (Some ''disk full'')) ex_state ''2'' (ex_input 2500 ''food''))) = ex_expenses"
proof -
  let ?old = "\<lparr>eid = ''2'', description = ''groceries'', amount = 1500, date = ''10/03/2024'',
       category = ''food'', timestamp = Some 1710009000000\<rparr>"
  have w1: "add_warning (st_budget ex_state)
              (current_status (ex_env False None) (ex_state\<lparr>st_error := None\<rparr>))
              (ex_input 600 ''food'') \<noteq> None"
    by code_simp
  have f: "find (\<lambda>e. eid e = ''2'') (st_expenses ex_state) = Some ?old"
    by code_simp
  have w2: "update_warning (st_budget ex_state)
              (current_status (ex_env False None) (ex_state\<lparr>st_error := None\<rparr>)) ?old
              (ex_input 2500 ''food'') \<noteq> None"
    by code_simp
  have n: "\<not> alert_answer (ex_env False None)" by (simp add: ex_env_def)
  have e: "setItem_error (ex_env True (Some ''disk full'')) = Some ''disk full''"
    "''disk full'' \<noteq> ''Expense cancelled''"
    by (simp_all add: ex_env_def)
  have c: "fst (addExpense (ex_env True (Some ''disk full'')) ex_state (ex_input 600 ''food''))
             \<noteq> Inl (Error ''Expense cancelled'')"
    by code_simp
  have e': "''disk full'' \<noteq> ''Update cancelled''" by simp
  have c': "fst (updateExpense (ex_env True (Some ''disk full'')) ex_state ''2''
               (ex_input 2500 ''food'')) \<noteq> Inl (Error ''Update cancelled'')"
    by code_simp
  have s: "st_expenses ex_state = ex_expenses" "st_storage ex_state = Map.empty"
    by (simp_all add: ex_state_def)
  from declined_warning_leaves_state
         [of ex_state "ex_env False None" "ex_input 600 ''food''" "''2''" ?old "''x''"]
       declined_warning_leaves_state
         [of ex_state "ex_env False None" "ex_input 2500 ''food''" "''2''" ?old "''x''"]
       declined_warning_leaves_state
         [of ex_state "ex_env True (Some ''disk full'')" "ex_input 600 ''food''" "''2''" ?old
            "''disk full''"]
       declined_warning_leaves_state
         [of ex_state "ex_env True (Some ''disk full'')" "ex_input 2500 ''food''" "''2''" ?old
            "''disk full''"]
       w1 f w2 n e c e' c' s
  show ?thesis by simp
qed

subsection \<open>Confirmation before a mutation\<close>


















subsection \<open>Amounts that enter the store\<close>

lemma round2_nonneg: "0 < a \<Longrightarrow> 0 \<le> round2 a"
proof -
  assume "0 < a"
  then have "0 \<le> a * 100 + 1 / 2" by simp
  then have "0 \<le> \<lfloor>a * 100 + 1 / 2\<rfloor>" by simp
  then show ?thesis by (simp add: round2_def Math_round_def)
qed

lemma round2_pos: "1 / 200 \<le> a \<Longrightarrow> 0 < round2 a"
proof -
  assume "1 / 200 \<le> a"
  then have "1 \<le> a * 100 + 1 / 2" by simp
  then have "1 \<le> \<lfloor>a * 100 + 1 / 2\<rfloor>" by (simp add: le_floor_iff)
  then show ?thesis by (simp add: round2_def Math_round_def)
qed

lemma keep_record_None: "keep_record e = None \<longleftrightarrow> e = JNull \<or> e = JUndefined"
  by (cases e) (simp_all add: keep_record_def)

lemma keep_record_Some:
  "e \<noteq> JNull \<Longrightarrow> e \<noteq> JUndefined \<Longrightarrow> keep_record e = Some (has_required_fields e)"
  by (cases e) (simp_all add: keep_record_def has_required_fields_def the_prop_def)

lemma is_stringE: "is_string v \<Longrightarrow> \<exists>s. v = JStr s"
  by (cases v) (simp_all add: is_string_def)

lemma is_numberE: "is_number v \<Longrightarrow> \<exists>n. v = JNum n"
  by (cases v) (simp_all add: is_number_def)

lemma to_record_TypeError:
  "to_record ev e = TypeError \<longleftrightarrow> \<not> is_string (the_prop e ''description'')"
proof (cases "the_prop e ''description''")
  case (JStr d)
  then show ?thesis
    by (simp add: to_record_def is_string_def Let_def split: jsval.splits prod.splits)
qed (simp_all add: to_record_def is_string_def)

lemma to_record_Mapped:
  assumes "has_required_fields e" and t: "has_Expense_types e"
  shows "\<exists>r. to_record ev e = Mapped r \<and> eid r = js_string (the_prop e ''id'')
       \<and> amount r = round2 (js_number (the_prop e ''amount''))"
proof -
  from t obtain i d a dt where f: "the_prop e ''id'' = JStr i" "the_prop e ''description'' = JStr d"
    "the_prop e ''amount'' = JNum a" "the_prop e ''date'' = JStr dt"
    unfolding has_Expense_types_def by (meson is_stringE is_numberE)
  from t have c: "\<not> (truthy (the_prop e ''category'')
       \<and> (case the_prop e ''category'' of JStr cs \<Rightarrow> False | _ \<Rightarrow> True))"
    unfolding has_Expense_types_def by (auto dest: is_stringE)
  from t have ts: "\<not> (truthy (the_prop e ''timestamp'')
       \<and> (case the_prop e ''timestamp'' of JNum n \<Rightarrow> n \<noteq> of_int \<lfloor>n\<rfloor> | _ \<Rightarrow> True))"
    unfolding has_Expense_types_def by (auto dest!: is_numberE simp: js_number_def)
  show ?thesis
    unfolding to_record_def Let_def using c ts
    by (simp add: f js_string_def js_number_def)
qed

lemma mapped_records:
  "\<forall>e \<in> set kept. has_required_fields e \<and> has_Expense_types e \<Longrightarrow>
   TypeError \<notin> set (map (to_record ev) kept) \<and> IllTyped \<notin> set (map (to_record ev) kept)
   \<and> map (\<lambda>r. (eid r, amount r))
        (concat (map (\<lambda>r. case r of Mapped x \<Rightarrow> [x] | _ \<Rightarrow> []) (map (to_record ev) kept)))
     = map (\<lambda>e. (js_string (the_prop e ''id''), round2 (js_number (the_prop e ''amount'')))) kept"
proof (induction kept)
  case Nil
  then show ?case by simp
next
  case (Cons e kept)
  then have "has_required_fields e" and "has_Expense_types e" by simp_all
  from to_record_Mapped [OF this, of ev] obtain r where "to_record ev e = Mapped r"
    and "eid r = js_string (the_prop e ''id'')"
    and "amount r = round2 (js_number (the_prop e ''amount''))" by blast
  with Cons show ?case by simp
qed

lemma kept_filter:
  "\<forall>e \<in> set parsed. e \<noteq> JNull \<and> e \<noteq> JUndefined \<Longrightarrow>
   filter (\<lambda>e. keep_record e = Some True) parsed = filter has_required_fields parsed"
  by (rule filter_cong) (simp_all add: keep_record_Some)

lemma validate_succeeds:
  assumes n: "\<forall>e \<in> set parsed. e \<noteq> JNull \<and> e \<noteq> JUndefined"
    and t: "\<forall>e \<in> set (filter has_required_fields parsed). has_Expense_types e"
  shows "\<exists>recs. validate ev parsed = Validated recs
     \<and> map (\<lambda>r. (eid r, amount r)) recs
       = map (\<lambda>e. (js_string (the_prop e ''id''), round2 (js_number (the_prop e ''amount''))))
           (filter has_required_fields parsed)"
proof -
  from n have "None \<notin> set (map keep_record parsed)"
    by (auto simp: keep_record_Some)
  moreover from t
  have "\<forall>e \<in> set (filter has_required_fields parsed). has_required_fields e \<and> has_Expense_types e"
    by simp
  note mapped_records [OF this, of ev]
  ultimately show ?thesis
    by (simp add: validate_def Let_def kept_filter [OF n])
qed

lemma validate_throws:
  assumes "(\<exists>e \<in> set parsed. e = JNull \<or> e = JUndefined)
     \<or> (\<exists>e \<in> set (filter has_required_fields parsed). \<not> is_string (the_prop e ''description''))"
  shows "validate ev parsed = Thrown"
proof (cases "\<exists>e \<in> set parsed. e = JNull \<or> e = JUndefined")
  case True
  then obtain e where "e \<in> set parsed" and "keep_record e = None"
    by (auto simp: keep_record_None)
  then have "None \<in> set (map keep_record parsed)" by force
  then show ?thesis by (simp add: validate_def)
next
  case False
  then have n: "\<forall>e \<in> set parsed. e \<noteq> JNull \<and> e \<noteq> JUndefined" by blast
  with assms obtain e where "e \<in> set (filter has_required_fields parsed)"
    and "\<not> is_string (the_prop e ''description'')" by blast
  then have "e \<in> set (filter has_required_fields parsed)" and "to_record ev e = TypeError"
    by (simp_all add: to_record_TypeError)
  then have "TypeError \<in> set (map (to_record ev) (filter has_required_fields parsed))"
    by force
  then show ?thesis by (simp add: validate_def Let_def kept_filter [OF n])
qed

lemma load_array:
  "getItem_error ev = None \<Longrightarrow> st_storage s STORAGE_KEY = Some p \<Longrightarrow> p \<noteq> [] \<Longrightarrow>
   json_parse ev p = Some (JArr parsed) \<Longrightarrow>
   loadStoredData ev False s =
     (case validate ev parsed of
        Thrown \<Rightarrow> Some (discard_stored ev (s\<lparr>st_error := None\<rparr>))
      | Untypable \<Rightarrow> None
      | Validated recs \<Rightarrow> Some (s\<lparr>st_error := None, st_expenses := recs\<rparr>))"
  by (simp add: loadStoredData_def Let_def split: validation.splits)

lemma addExpense_no_budget:
  "st_budget s = None \<Longrightarrow> setItem_error ev = None \<Longrightarrow>
   fst (addExpense ev s inp) = Inr ()
   \<and> st_expenses (snd (addExpense ev s inp)) = st_expenses s @ [newExpense ev inp]"
  by (simp add: addExpense_def add_warning_def Let_def commit_def)

lemma updateExpense_no_budget:
  "st_budget s = None \<Longrightarrow> setItem_error ev = None \<Longrightarrow>
   find (\<lambda>e. eid e = i) (st_expenses s) = Some old \<Longrightarrow>
   fst (updateExpense ev s i inp) = Inr ()
   \<and> st_expenses (snd (updateExpense ev s i inp))
      = map (\<lambda>e. if eid e = i then updatedExpense ev i inp else e) (st_expenses s)"
  by (simp add: updateExpense_def update_warning_def Let_def commit_def)

lemma addExpense_amounts:
  "e \<in> set (st_expenses (snd (addExpense ev s inp))) \<Longrightarrow>
   e \<in> set (st_expenses s) \<or> amount e = in_amount inp"
  by (auto simp: addExpense_def Let_def commit_def catch_mutation_def newExpense_def
      split: option.splits if_splits)

lemma updateExpense_amounts:
  "e \<in> set (st_expenses (snd (updateExpense ev s i inp))) \<Longrightarrow>
   e \<in> set (st_expenses s) \<or> amount e = in_amount inp"
  by (auto simp: updateExpense_def Let_def commit_def catch_mutation_def updatedExpense_def
      split: option.splits if_splits)

lemma handleSubmit_amounts:
  assumes "e \<in> set (st_expenses (snd (handleSubmit ev s f)))"
    and "parseFloat ev (f_amount f) = Some a"
  shows "e \<in> set (st_expenses s) \<or> amount e = round2 a"
proof (cases "trim (f_description f) = [] \<or> a \<le> 0")
  case True
  with assms show ?thesis by (auto simp: handleSubmit_def split: if_splits)
next
  case False
  show ?thesis
  proof (cases "f_editingExpense f")
    case None
    with False assms
    have "e \<in> set (st_expenses (snd (addExpense ev s (expenseData ev f a))))"
      by (auto simp: handleSubmit_def Let_def split: sum.splits)
    from addExpense_amounts [OF this] show ?thesis by (simp add: expenseData_def)
  next
    case (Some ed)
    with False assms
    have "e \<in> set (st_expenses (snd (updateExpense ev s (eid ed) (expenseData ev f a))))"
      by (auto simp: handleSubmit_def Let_def split: sum.splits)
    from updateExpense_amounts [OF this] show ?thesis by (simp add: expenseData_def)
  qed
qed

lemma handleSubmit_appends:
  assumes "trim (f_description f) \<noteq> []" and "parseFloat ev (f_amount f) = Some a" and "0 < a"
    and "f_editingExpense f = None" and "st_budget s = None" and "setItem_error ev = None"
  shows "fst (handleSubmit ev s f) = Submitted (Inr ())
     \<and> map amount (st_expenses (snd (handleSubmit ev s f))) = map amount (st_expenses s) @ [round2 a]"
  using assms addExpense_no_budget [of s ev "expenseData ev f a"]
  by (simp add: handleSubmit_def Let_def newExpense_def expenseData_def)

text \<open>
  C4 (as amended). The form rejects, without touching the store, an input for whose
  amount text \<^verbatim>\<open>parseFloat\<close> gives \<^verbatim>\<open>NaN\<close> or a number that is not positive. When the number
  it gives is at least 0.005, every record of the store after the submission is an old one
  or carries the amount \<^verbatim>\<open>Math.round(amount * 100) / 100\<close>, which is positive; with a
  description that is not blank, no record being edited, no budget set and a successful
  write, the submission appends one such record. \<^verbatim>\<open>addExpense\<close> and \<^verbatim>\<open>updateExpense\<close>
  themselves check no amount: with no budget set and a successful write (and, for an
  update, a record of the given id) they store the amount they are given, whatever its
  sign.

  Loading, when the key is read without error and holds a text that is not empty and
  parses to an array. If the array has no \<^verbatim>\<open>null\<close> element, and each of its elements with a
  truthy id, description and date and a numeric amount has strings for id, description
  and date, a string for a category that is truthy and a whole number for a timestamp
  that is truthy, then the store holds exactly those elements, in order, each under its
  id and with its amount replaced by \<^verbatim>\<open>Math.round(amount * 100) / 100\<close>, whatever its sign.
  If the array has a \<^verbatim>\<open>null\<close> element, or an element passing that test whose description
  is not a string, and the removal of the key succeeds, then the store holds no record
  and the key is removed.
\<close>

theorem amounts_entering_store:
  "((parseFloat ev (f_amount f) = None \<or> (\<exists>a. parseFloat ev (f_amount f) = Some a \<and> a \<le> 0))
      \<longrightarrow> fst (handleSubmit ev s f) \<in> {DescriptionRequired, InvalidAmount}
          \<and> snd (handleSubmit ev s f) = s)
   \<and> (parseFloat ev (f_amount f) = Some a \<and> 1 / 200 \<le> a
      \<longrightarrow> (\<forall>e \<in> set (st_expenses (snd (handleSubmit ev s f))).
             e \<in> set (st_expenses s) \<or> (amount e = round2 a \<and> 0 < amount e)))
   \<and> (trim (f_description f) \<noteq> [] \<and> parseFloat ev (f_amount f) = Some a \<and> 1 / 200 \<le> a
      \<and> f_editingExpense f = None \<and> st_budget s = None \<and> setItem_error ev = None
      \<longrightarrow> fst (handleSubmit ev s f) = Submitted (Inr ())
          \<and> map amount (st_expenses (snd (handleSubmit ev s f)))
             = map amount (st_expenses s) @ [round2 a])
   \<and> (st_budget s = None \<and> setItem_error ev = None
      \<longrightarrow> fst (addExpense ev s inp) = Inr ()
          \<and> map amount (st_expenses (snd (addExpense ev s inp)))
             = map amount (st_expenses s) @ [in_amount inp])
   \<and> (st_budget s = None \<and> setItem_error ev = None
      \<and> find (\<lambda>e. eid e = i) (st_expenses s) = Some old
      \<longrightarrow> fst (updateExpense ev s i inp) = Inr ()
          \<and> map amount (st_expenses (snd (updateExpense ev s i inp)))
             = map (\<lambda>e. if eid e = i then in_amount inp else amount e) (st_expenses s))
   \<and> (getItem_error ev = None \<and> st_storage s STORAGE_KEY = Some p \<and> p \<noteq> []
      \<and> json_parse ev p = Some (JArr parsed)
      \<and> (\<forall>e \<in> set parsed. e \<noteq> JNull \<and> e \<noteq> JUndefined)
      \<and> (\<forall>e \<in> set (filter has_required_fields parsed). has_Expense_types e)
      \<longrightarrow> map_option (map (\<lambda>r. (eid r, amount r)) \<circ> st_expenses) (loadStoredData ev False s)
           = Some (map (\<lambda>e. (js_string (the_prop e ''id''),
                              round2 (js_number (the_prop e ''amount''))))
                     (filter has_required_fields parsed)))
   \<and> (getItem_error ev = None \<and> st_storage s STORAGE_KEY = Some p \<and> p \<noteq> []
      \<and> json_parse ev p = Some (JArr parsed) \<and> removeItem_error ev = None
      \<and> ((\<exists>e \<in> set parsed. e = JNull \<or> e = JUndefined)
          \<or> (\<exists>e \<in> set (filter has_required_fields parsed).
                \<not> is_string (the_prop e ''description'')))
      \<longrightarrow> map_option st_expenses (loadStoredData ev False s) = Some []
          \<and> map_option (\<lambda>s'. st_storage s' STORAGE_KEY) (loadStoredData ev False s) = Some None)"
proof (intro conjI impI)
  assume "parseFloat ev (f_amount f) = None \<or> (\<exists>a. parseFloat ev (f_amount f) = Some a \<and> a \<le> 0)"
  then show "fst (handleSubmit ev s f) \<in> {DescriptionRequired, InvalidAmount}"
    and "snd (handleSubmit ev s f) = s"
    by (auto simp: handleSubmit_def)
next
  assume a: "parseFloat ev (f_amount f) = Some a \<and> 1 / 200 \<le> a"
  show "\<forall>e \<in> set (st_expenses (snd (handleSubmit ev s f))).
             e \<in> set (st_expenses s) \<or> (amount e = round2 a \<and> 0 < amount e)"
  proof
    fix e
    assume "e \<in> set (st_expenses (snd (handleSubmit ev s f)))"
    from handleSubmit_amounts [OF this] a round2_pos [of a]
    show "e \<in> set (st_expenses s) \<or> (amount e = round2 a \<and> 0 < amount e)"
      by auto
  qed
next
  assume h: "trim (f_description f) \<noteq> [] \<and> parseFloat ev (f_amount f) = Some a \<and> 1 / 200 \<le> a
      \<and> f_editingExpense f = None \<and> st_budget s = None \<and> setItem_error ev = None"
  then have "0 < a" by simp
  with h handleSubmit_appends [of f ev a s]
  show "fst (handleSubmit ev s f) = Submitted (Inr ())"
    and "map amount (st_expenses (snd (handleSubmit ev s f)))
             = map amount (st_expenses s) @ [round2 a]"
    by simp_all
next
  assume "st_budget s = None \<and> setItem_error ev = None"
  with addExpense_no_budget [of s ev inp]
  show "fst (addExpense ev s inp) = Inr ()"
    and "map amount (st_expenses (snd (addExpense ev s inp)))
             = map amount (st_expenses s) @ [in_amount inp]"
    by (simp_all add: newExpense_def)
next
  assume "st_budget s = None \<and> setItem_error ev = None
      \<and> find (\<lambda>e. eid e = i) (st_expenses s) = Some old"
  with updateExpense_no_budget [of s ev i old inp]
  show "fst (updateExpense ev s i inp) = Inr ()"
    and "map amount (st_expenses (snd (updateExpense ev s i inp)))
             = map (\<lambda>e. if eid e = i then in_amount inp else amount e) (st_expenses s)"
    by (simp_all add: updatedExpense_def comp_def if_distrib cong: if_cong)
next
  assume l: "getItem_error ev = None \<and> st_storage s STORAGE_KEY = Some p \<and> p \<noteq> []
      \<and> json_parse ev p = Some (JArr parsed)
      \<and> (\<forall>e \<in> set parsed. e \<noteq> JNull \<and> e \<noteq> JUndefined)
      \<and> (\<forall>e \<in> set (filter has_required_fields parsed). has_Expense_types e)"
  then obtain recs where "validate ev parsed = Validated recs"
    and "map (\<lambda>r. (eid r, amount r)) recs
       = map (\<lambda>e. (js_string (the_prop e ''id''), round2 (js_number (the_prop e ''amount''))))
           (filter has_required_fields parsed)"
    using validate_succeeds [of parsed ev] by blast
  with l load_array [of ev s p parsed]
  show "map_option (map (\<lambda>r. (eid r, amount r)) \<circ> st_expenses) (loadStoredData ev False s)
           = Some (map (\<lambda>e. (js_string (the_prop e ''id''),
                              round2 (js_number (the_prop e ''amount''))))
                     (filter has_required_fields parsed))"
    by simp
next
  assume l: "getItem_error ev = None \<and> st_storage s STORAGE_KEY = Some p \<and> p \<noteq> []
      \<and> json_parse ev p = Some (JArr parsed) \<and> removeItem_error ev = None
      \<and> ((\<exists>e \<in> set parsed. e = JNull \<or> e = JUndefined)
          \<or> (\<exists>e \<in> set (filter has_required_fields parsed).
                \<not> is_string (the_prop e ''description'')))"
  then have "validate ev parsed = Thrown" using validate_throws [of parsed ev] by blast
  with l load_array [of ev s p parsed]
  show "map_option st_expenses (loadStoredData ev False s) = Some []"
    and "map_option (\<lambda>s'. st_storage s' STORAGE_KEY) (loadStoredData ev False s) = Some None"
    by (simp_all add: discard_stored_def)
qed

theorem amounts_entering_store_witness:
  "snd (handleSubmit (ex_env True None) ex_state (ex_form ''abc'')) = ex_state
   \<and> list_all (\<lambda>e. e \<in> set ex_expenses \<or> (amount e = 25 / 2 \<and> 0 < amount e))
        (st_expenses (snd (handleSubmit (ex_env True None) ex_state (ex_form ''12.5''))))
   \<and> map amount (st_expenses (snd (handleSubmit (ex_env True None) (ex_startup [])
        (ex_form ''12.5'')))) = [25 / 2]
   \<and> map amount (st_expenses (snd (addExpense (ex_env True None) (ex_startup [])
        (ex_input (- 5) ''food'')))) = [- 5]
   \<and> map amount (st_expenses (snd (updateExpense (ex_env True None)
        (ex_state\<lparr>st_budget := None\<rparr>) ''2'' (ex_input (- 5) ''food'')))) = [3000, - 5, 999]
   \<and> map_option (map (\<lambda>r. (eid r, amount r)) \<circ> st_expenses)
        (loadStoredData (ex_env True None) False (ex_startup ex_negative)) = Some [(''9'', - 5)]
   \<and> map_option st_expenses
        (loadStoredData (ex_env True None) False (ex_startup ex_with_null)) = Some []
   \<and> map_option (\<lambda>s. st_storage s STORAGE_KEY)
        (loadStoredData (ex_env True None) False (ex_startup ex_with_null)) = Some None"
proof -
  let ?ev = "ex_env True None"
  let ?rec = "JObj [(''id'', JStr ''9''), (''description'', JStr ''refund''),
                    (''amount'', JNum (- 5)), (''date'', JStr ''01/03/2024'')]"
  let ?nb = "ex_state\<lparr>st_budget := None\<rparr>"
  have p1: "parseFloat ?ev (f_amount (ex_form ''abc'')) = None" by code_simp
  have p2: "parseFloat ?ev (f_amount (ex_form ''12.5'')) = Some (25 / 2)" by code_simp
  have r: "round2 (25 / 2) = 25 / 2" by code_simp
  have d: "trim (f_description (ex_form ''12.5'')) \<noteq> []" by code_simp
  have ed: "f_editingExpense (ex_form ''12.5'') = None" by (simp add: ex_form_def)
  have w: "setItem_error ?ev = None" by (simp add: ex_env_def)
  have g: "getItem_error ?ev = None" by (simp add: ex_env_def)
  have rm: "removeItem_error ?ev = None" by (simp add: ex_env_def)
  have b0: "st_budget (ex_startup []) = None" by (simp add: ex_startup_def)
  have e0: "st_expenses (ex_startup []) = []" by (simp add: ex_startup_def)
  have b1: "st_budget ?nb = None" by simp
  have e1: "map amount (st_expenses ?nb) = [3000, 1500, 999]"
    by (simp add: ex_state_def ex_expenses_def)
  have i1: "map eid (st_expenses ?nb) = [''1'', ''2'', ''3'']"
    by (simp add: ex_state_def ex_expenses_def)
  have f1: "find (\<lambda>e. eid e = ''2'') (st_expenses ?nb) = Some (ex_expenses ! 1)"
    by (simp add: ex_state_def ex_expenses_def)
  have k: "st_storage (ex_startup ex_negative) STORAGE_KEY = Some ex_negative"
    by (simp add: ex_startup_def)
  have n: "ex_negative \<noteq> []" by (simp add: ex_negative_def)
  have j: "json_parse ?ev ex_negative = Some (JArr [?rec])"
    by (simp add: ex_env_def ex_parse_def) code_simp
  have k': "st_storage (ex_startup ex_with_null) STORAGE_KEY = Some ex_with_null"
    by (simp add: ex_startup_def)
  have n': "ex_with_null \<noteq> []" by (simp add: ex_with_null_def)
  have j': "json_parse ?ev ex_with_null = Some (JArr [JNull, ?rec])"
    by (simp add: ex_env_def ex_parse_def) code_simp
  have h: "has_required_fields ?rec" by code_simp
  have t: "has_Expense_types ?rec" by code_simp
  have v: "js_string (the_prop ?rec ''id'') = ''9''" "round2 (js_number (the_prop ?rec ''amount'')) = - 5"
    by code_simp+
  have e: "st_expenses ex_state = ex_expenses" by (simp add: ex_state_def)
  from amounts_entering_store [where ev = ?ev and f = "ex_form ''abc''" and s = ex_state] p1
  have 1: "snd (handleSubmit ?ev ex_state (ex_form ''abc'')) = ex_state" by simp
  from amounts_entering_store [where ev = ?ev and f = "ex_form ''12.5''" and s = ex_state and a = "25 / 2"] p2 r e
  have 2: "\<forall>e \<in> set (st_expenses (snd (handleSubmit ?ev ex_state (ex_form ''12.5'')))).
         e \<in> set ex_expenses \<or> (amount e = 25 / 2 \<and> 0 < amount e)" by auto
  from amounts_entering_store [where ev = ?ev and f = "ex_form ''12.5''" and s = "ex_startup []" and a = "25 / 2"]
    p2 r d ed w b0 e0
  have 3: "map amount (st_expenses (snd (handleSubmit ?ev (ex_startup []) (ex_form ''12.5''))))
        = [25 / 2]" by simp
  from amounts_entering_store [where ev = ?ev and s = "ex_startup []" and inp = "ex_input (- 5) ''food''"] w b0 e0
  have 4: "map amount (st_expenses (snd (addExpense ?ev (ex_startup [])
        (ex_input (- 5) ''food'')))) = [- 5]" by (simp add: ex_input_def)
  from amounts_entering_store [where ev = ?ev and s = ?nb and inp = "ex_input (- 5) ''food''" and i = "''2''"
      and old = "ex_expenses ! 1"] w b1 f1
  have "map amount (st_expenses (snd (updateExpense ?ev ?nb ''2'' (ex_input (- 5) ''food''))))
        = map (\<lambda>e. if eid e = ''2'' then in_amount (ex_input (- 5) ''food'') else amount e)
            (st_expenses ?nb)" by blast
  then have 5: "map amount (st_expenses (snd (updateExpense ?ev ?nb ''2''
        (ex_input (- 5) ''food'')))) = [3000, - 5, 999]"
    by (simp add: ex_state_def ex_expenses_def ex_input_def)
  from amounts_entering_store [where ev = ?ev and s = "ex_startup ex_negative" and p = ex_negative
      and parsed = "[?rec]"] g k n j h t v
  have 6: "map_option (map (\<lambda>r. (eid r, amount r)) \<circ> st_expenses)
        (loadStoredData ?ev False (ex_startup ex_negative)) = Some [(''9'', - 5)]"
    by simp
  from amounts_entering_store [where ev = ?ev and s = "ex_startup ex_with_null" and p = ex_with_null
      and parsed = "[JNull, ?rec]"] g k' n' j' rm
  have 7: "map_option st_expenses (loadStoredData ?ev False (ex_startup ex_with_null)) = Some []
     \<and> map_option (\<lambda>s. st_storage s STORAGE_KEY)
        (loadStoredData ?ev False (ex_startup ex_with_null)) = Some None"
    by simp
  from 1 2 3 4 5 6 7 show ?thesis by (simp add: list_all_iff)
qed

text \<open>
  C4 as stated fails: a persisted record with amount \<open>-5\<close> is loaded as it is,
  \<^verbatim>\<open>addExpense\<close> itself stores an amount of \<open>-5\<close>, and the form accepts the amount
  \<open>0.004\<close>, which is stored as \<open>0\<close>.
\<close>

theorem nonpositive_amount_counterexample:
  "map_option (map amount \<circ> st_expenses)
     (loadStoredData (ex_env True None) False (ex_startup ex_negative)) = Some [- 5]
   \<and> fst (addExpense (ex_env True None) (ex_startup []) (ex_input (- 5) ''food'')) = Inr ()
   \<and> map amount (st_expenses (snd (addExpense (ex_env True None) (ex_startup [])
        (ex_input (- 5) ''food'')))) = [- 5]
   \<and> fst (handleSubmit (ex_env True None) (ex_startup []) (ex_form ''0.004'')) = Submitted (Inr ())
   \<and> map amount (st_expenses (snd (handleSubmit (ex_env True None) (ex_startup [])
        (ex_form ''0.004'')))) = [0]"
  by code_simp

subsection \<open>Corrupt persisted payloads\<close>

text \<open>
  C8. A corrupt persisted payload should load as an empty sequence and its key should be
  cleared. The code does so for a text that does not parse; for the parseable text
  \<^verbatim>\<open>"not an array"\<close> the list stays empty, as it is at start-up, but the key and its
  payload are left in storage.
\<close>

theorem load_keeps_non_array_payload:
  "json_parse (ex_env True None) ex_not_array = Some (JStr ''not an array'')
   \<and> map_option (\<lambda>s. st_storage s STORAGE_KEY)
       (loadStoredData (ex_env True None) False (ex_startup ex_not_array)) = Some (Some ex_not_array)
   \<and> map_option st_expenses
       (loadStoredData (ex_env True None) False (ex_startup ex_not_array)) = Some []
   \<and> json_parse (ex_env True None) ''{oops'' = None
   \<and> map_option (\<lambda>s. st_storage s STORAGE_KEY)
       (loadStoredData (ex_env True None) False (ex_startup ''{oops'')) = Some None"
  by code_simp

subsection \<open>Category totals and the total\<close>

lemma status_values_sum:
  "sum_list (map snd (categoryTotals (getBudgetStatus tza parse budget xs now)))
     = total (getBudgetStatus tza parse budget xs now)"
proof (cases budget)
  case None
  then show ?thesis by (simp add: getBudgetStatus_def)
next
  case (Some b)
  have "distinct (map fst ([] :: (string \<times> rat) list))" by simp
  from foldl_totals_values [OF this] show ?thesis
    by (simp add: Some getBudgetStatus_Some Let_def foldl_totals_fst)
qed

lemma foldl_category_get:
  "get_or_0 (foldl add_to_category m xs) c =
     get_or_0 m c + sum_list (map amount (filter (\<lambda>e. eff_cat e = c) xs))"
  by (induction xs arbitrary: m)
    (auto simp: add_to_category_def get_or_0_obj_set Let_def eff_cat_def)

lemma foldl_running_sum:
  "foldl (\<lambda>running e. running + amount e) a xs = a + sum_list (map amount xs)"
  by (induction xs arbitrary: a) simp_all

lemma round2_cents: "round2 (of_int k / 100) = of_int k / 100"
proof -
  have "\<lfloor>(of_int k :: rat) + 1 / 2\<rfloor> = k" by linarith
  then show ?thesis by (simp add: round2_def Math_round_def)
qed

lemma cents_sum:
  "\<forall>e \<in> set xs. \<exists>k::int. amount e = of_int k / 100 \<Longrightarrow>
   \<exists>k::int. sum_list (map amount xs) = of_int k / 100"
proof (induction xs)
  case Nil
  show ?case by (intro exI [of _ 0]) simp
next
  case (Cons e xs)
  then obtain k j :: int where "amount e = of_int k / 100"
    and "sum_list (map amount xs) = of_int j / 100" by auto
  then have "sum_list (map amount (e # xs)) = of_int (k + j) / 100"
    by (simp add: add_divide_distrib)
  then show ?case by blast
qed

lemma round2_sum_cents:
  "\<forall>e \<in> set xs. \<exists>k::int. amount e = of_int k / 100 \<Longrightarrow>
   round2 (sum_list (map amount xs)) = sum_list (map amount xs)"
proof -
  assume "\<forall>e \<in> set xs. \<exists>k::int. amount e = of_int k / 100"
  from cents_sum [OF this] obtain k :: int where "sum_list (map amount xs) = of_int k / 100"
    by blast
  then show ?thesis by (simp only: round2_cents)
qed

lemma sum_indicator_absent:
  "c \<notin> set ids \<Longrightarrow> sum_list (map (\<lambda>i. if c = i then a else 0) ids) = (0::rat)"
  by (induction ids) auto

lemma sum_indicator:
  "distinct ids \<Longrightarrow> c \<in> set ids \<Longrightarrow>
   sum_list (map (\<lambda>i. if c = i then a else 0) ids) = (a::rat)"
proof (induction ids)
  case Nil
  then show ?case by simp
next
  case (Cons i ids)
  show ?case
  proof (cases "c = i")
    case True
    with Cons.prems have "c \<notin> set ids" by simp
    from sum_indicator_absent [OF this, of a] True show ?thesis by simp
  next
    case False
    with Cons show ?thesis by simp
  qed
qed

lemma sum_by_category:
  "distinct ids \<Longrightarrow> \<forall>e \<in> set xs. eff_cat e \<in> set ids \<Longrightarrow>
   sum_list (map (\<lambda>i. sum_list (map amount (filter (\<lambda>e. eff_cat e = i) xs))) ids)
     = sum_list (map amount xs)"
proof (induction xs)
  case Nil
  then show ?case by simp
next
  case (Cons e xs)
  have "sum_list (map (\<lambda>i. sum_list (map amount (filter (\<lambda>e. eff_cat e = i) (e # xs)))) ids)
        = sum_list (map (\<lambda>i. (if eff_cat e = i then amount e else 0)
              + sum_list (map amount (filter (\<lambda>e. eff_cat e = i) xs))) ids)"
    by (intro arg_cong [where f = sum_list] map_cong) auto
  also have "\<dots> = sum_list (map (\<lambda>i. if eff_cat e = i then amount e else 0) ids)
        + sum_list (map (\<lambda>i. sum_list (map amount (filter (\<lambda>e. eff_cat e = i) xs))) ids)"
    by (rule sum_list_addf)
  also have "\<dots> = amount e + sum_list (map amount xs)"
    using Cons by (simp add: sum_indicator)
  finally show ?case by simp
qed


lemma categories_ids: "distinct (map fst categories)"
  by (simp add: categories_def)

lemma getCategoryData_amounts:
  "map cd_amount (getCategoryData xs) =
     map (\<lambda>i. round2 (sum_list (map amount (filter (\<lambda>e. eff_cat e = i) xs))))
       (map fst categories)"
proof -
  have "get_or_0 [] c = 0" for c by (simp add: get_or_0_def)
  then show ?thesis
    by (simp add: getCategoryData_def Let_def foldl_category_get split_def comp_def)
qed

lemma whole_cents:
  "whole_amounts xs \<Longrightarrow> \<forall>e \<in> set (filter P xs). \<exists>k::int. amount e = of_int k / 100"
proof
  fix e
  assume w: "whole_amounts xs" and "e \<in> set (filter P xs)"
  then have "amount e = of_int \<lfloor>amount e\<rfloor>"
    by (simp add: whole_amounts_def list_all_iff)
  then have "amount e = of_int (100 * \<lfloor>amount e\<rfloor>) / 100" by simp
  then show "\<exists>k::int. amount e = of_int k / 100" by blast
qed

lemma whole_round2:
  "whole_amounts xs \<Longrightarrow>
   round2 (sum_list (map amount (filter P xs))) = sum_list (map amount (filter P xs))"
  by (rule round2_sum_cents) (rule whole_cents)

lemma sum_list_partition:
  "sum_list (map f xs)
     = sum_list (map f (filter P xs)) + (sum_list (map f (filter (\<lambda>x. \<not> P x) xs)) :: rat)"
  by (induction xs) simp_all

lemma known_amounts:
  assumes "whole_amounts xs"
  shows "map cd_amount (getCategoryData xs)
     = map (\<lambda>(cid, name). sum_list (map amount (filter (\<lambda>e. eff_cat e = cid) xs))) categories"
  using assms by (simp add: getCategoryData_amounts whole_round2 split_def comp_def)

lemma known_sum:
  "sum_list (map (\<lambda>i. sum_list (map amount (filter (\<lambda>e. eff_cat e = i) xs))) (map fst categories))
     = sum_list (map amount (filter (\<lambda>e. eff_cat e \<in> fst ` set categories) xs))"
proof -
  let ?K = "filter (\<lambda>e. eff_cat e \<in> fst ` set categories) xs"
  have eq: "filter (\<lambda>e. eff_cat e = i) xs = filter (\<lambda>e. eff_cat e = i) ?K"
    if "i \<in> set (map fst categories)" for i
    using that by (auto intro: filter_cong)
  have "sum_list (map (\<lambda>i. sum_list (map amount (filter (\<lambda>e. eff_cat e = i) xs)))
          (map fst categories))
      = sum_list (map (\<lambda>i. sum_list (map amount (filter (\<lambda>e. eff_cat e = i) ?K)))
          (map fst categories))"
    by (intro arg_cong [where f = sum_list] map_cong refl) (simp only: eq)
  also have "\<dots> = sum_list (map amount ?K)"
    by (rule sum_by_category [OF categories_ids]) simp
  finally show ?thesis .
qed

text \<open>
  C5 (as amended). For every record list whose amounts are whole numbers with absolute
  values summing to at most \<open>90071992547409\<close> and whose categories are none of the names
  that \<^verbatim>\<open>Object.prototype\<close> defines: for every budget and instant, the values of the Budget
  Evaluator's \<open>categoryTotals\<close> sum to its \<open>total\<close>; each of the six amounts of the
  analytics breakdown is the sum of the amounts of the records of its category, an empty
  category counting as other; the six amounts sum to the filtered total of the records
  whose category is one of the six; and the filtered total of all the records is the sum
  of the six amounts plus the sum of the amounts of the records of every other category.
\<close>

theorem category_totals_sum:
  "plain_categories xs \<Longrightarrow> whole_amounts xs \<Longrightarrow>
   sum_list (map snd (categoryTotals (getBudgetStatus tza parse budget xs now)))
     = total (getBudgetStatus tza parse budget xs now)
   \<and> map cd_amount (getCategoryData xs)
     = map (\<lambda>(cid, name). sum_list (map amount (filter (\<lambda>e. eff_cat e = cid) xs))) categories
   \<and> sum_list (map cd_amount (getCategoryData xs))
     = getTotalSpent (filter (\<lambda>e. eff_cat e \<in> fst ` set categories) xs)
   \<and> getTotalSpent xs
     = sum_list (map cd_amount (getCategoryData xs))
       + sum_list (map amount (filter (\<lambda>e. eff_cat e \<notin> fst ` set categories) xs))"
proof (intro conjI)
  assume w: "whole_amounts xs"
  show "sum_list (map snd (categoryTotals (getBudgetStatus tza parse budget xs now)))
     = total (getBudgetStatus tza parse budget xs now)"
    by (rule status_values_sum)
  show "map cd_amount (getCategoryData xs)
     = map (\<lambda>(cid, name). sum_list (map amount (filter (\<lambda>e. eff_cat e = cid) xs))) categories"
    using w by (rule known_amounts)
  have six: "sum_list (map cd_amount (getCategoryData xs))
     = sum_list (map amount (filter (\<lambda>e. eff_cat e \<in> fst ` set categories) xs))"
    using known_sum [of xs] by (simp add: known_amounts [OF w] split_def comp_def)
  have tot: "getTotalSpent (filter P xs) = sum_list (map amount (filter P xs))" for P
    using w by (simp add: getTotalSpent_def foldl_running_sum whole_round2)
  from six tot show "sum_list (map cd_amount (getCategoryData xs))
     = getTotalSpent (filter (\<lambda>e. eff_cat e \<in> fst ` set categories) xs)" by simp
  from tot [of "\<lambda>e. True"] have "getTotalSpent xs = sum_list (map amount xs)" by simp
  with six sum_list_partition [of amount xs "\<lambda>e. eff_cat e \<in> fst ` set categories"]
  show "getTotalSpent xs
     = sum_list (map cd_amount (getCategoryData xs))
       + sum_list (map amount (filter (\<lambda>e. eff_cat e \<notin> fst ` set categories) xs))"
    by simp
qed

theorem category_totals_sum_witness:
  "sum_list (map snd (categoryTotals
      (getBudgetStatus 19800000 (\<lambda>d. None) (Some ex_budget) ex_with_gym 1710500000000))) = 4600
   \<and> map cd_amount (getCategoryData ex_with_gym) = [2499, 0, 0, 3000, 0, 0]
   \<and> sum_list (map cd_amount (getCategoryData ex_with_gym)) = 5499
   \<and> getTotalSpent ex_with_gym = 5599"
proof -
  have p: "plain_categories ex_with_gym" by code_simp
  have w: "whole_amounts ex_with_gym" by code_simp
  have t: "total (getBudgetStatus 19800000 (\<lambda>d. None) (Some ex_budget) ex_with_gym 1710500000000)
             = 4600"
    by code_simp
  have a: "map (\<lambda>(cid, name). sum_list (map amount (filter (\<lambda>e. eff_cat e = cid) ex_with_gym)))
             categories = [2499, 0, 0, 3000, 0, 0]"
    by code_simp
  have k: "getTotalSpent (filter (\<lambda>e. eff_cat e \<in> fst ` set categories) ex_with_gym) = 5499"
    by code_simp
  have u: "sum_list (map amount (filter (\<lambda>e. eff_cat e \<notin> fst ` set categories) ex_with_gym))
             = 100"
    by code_simp
  from category_totals_sum [OF p w, of 19800000 "\<lambda>d. None" "Some ex_budget" 1710500000000]
    t a k u
  show ?thesis by simp
qed

text \<open>
  C5 as stated fails for a category outside the known set: one record of 100 in category
  gym gives six amounts that sum to 0 and a total of 100.
\<close>

theorem unknown_category_counterexample:
  "sum_list (map cd_amount (getCategoryData
      [\<lparr>eid = ''1'', description = ''membership'', amount = 100, date = ''05/03/2024'',
        category = ''gym'', timestamp = Some 1709620200000\<rparr>])) = 0
   \<and> getTotalSpent
      [\<lparr>eid = ''1'', description = ''membership'', amount = 100, date = ''05/03/2024'',
        category = ''gym'', timestamp = Some 1709620200000\<rparr>] = 100"
  by code_simp

subsection \<open>The week filter and the week chart\<close>

text \<open>
  C6. The week filter should select the records of the trailing 7 days including today,
  each counted in exactly one of the 7 buckets of the week chart. Of four records dated
  1, 3, 7 and 10 days back, the filter keeps the first three: the one dated 7 days back
  is selected (the filtered total is 70) and lies in none of the 7 buckets, which hold
  30 in all.
\<close>

theorem week_filter_selects_eighth_day:
  "map eid (filterExpenses 19800000 (\<lambda>d. None) 1710500000000 FilterWeek None None
      ex_week_expenses) = [''a'', ''b'', ''c'']
   \<and> getChartData 19800000 (\<lambda>d. None) 1710500000000
        (filterExpenses 19800000 (\<lambda>d. None) 1710500000000 FilterWeek None None ex_week_expenses)
        FilterWeek None None = [0, 0, 0, 20, 0, 10, 0]
   \<and> getTotalSpent (filterExpenses 19800000 (\<lambda>d. None) 1710500000000 FilterWeek None None
        ex_week_expenses) = 70"
  by code_simp

subsection \<open>The advisory tip\<close>



























end
